theory Spec2Isabelle
  imports Complex_Main "HOL-Library.Word"
begin

section \<open>Data model of the tiling plugin (controller.cpp)\<close>

text \<open>
  The controller works on nodes of type \<open>node\<close> (declared in node.h) that carry a window
  id, tree links, a split, a ratio, a region and a zoom pointer. A value of the C type
  \<open>float\<close> is a \<open>real\<close>. The complement of a ratio in \<open>RotateBSPTree\<close> is rounded to
  single precision (\<open>float32\<close> below), because a second rotation reads it back;
  the other arithmetic on ratios and coordinates is exact. Window ids are \<open>uint32_t\<close>.
\<close>

datatype node_split = Split_None | Split_Optimal | Split_Vertical | Split_Horizontal

record region =
  X :: real
  Y :: real
  Width :: real
  Height :: real

record node_data =
  WindowId :: "32 word"
  Split :: node_split
  Ratio :: real
  Region :: region

text \<open>
  A BSP tree as the recursion of \<open>RotateBSPTree\<close> sees it: a node whose \<open>Left\<close> and
  \<open>Right\<close> are both NULL (\<open>IsLeafNode\<close>), or a node with two children (a BSP tree
  has no node with one child). Leaves keep their \<open>Split\<close> and \<open>Ratio\<close> fields, which
  the code updates like those of any node; the swap of their two NULL children shows
  nowhere.
\<close>

datatype bsp = Leaf node_data | Branch node_data bsp bsp

fun root_data :: "bsp \<Rightarrow> node_data" where
  "root_data (Leaf d) = d"
| "root_data (Branch d l r) = d"

section \<open>Single precision\<close>

text \<open>
  A finite \<open>float\<close> is a real \<open>m * 2 ^ (e - 23)\<close> with an integer \<open>m\<close> of magnitude below
  \<open>2 ^ 24\<close> and \<open>- 126 \<le> e \<le> 127\<close>. An arithmetic operation on floats returns the float
  nearest to its exact result, and of two nearest floats the one with the even \<open>m\<close>
  (the rounding mode in force unless a program changes it; controller.cpp never does).
  \<open>round_even\<close> is that rounding on integers, \<open>float32 x\<close> the float returned for the
  exact result \<open>x\<close>: \<open>x\<close> is rounded to a multiple of \<open>2 ^ (e - 23)\<close>, where \<open>e\<close> is the
  exponent of \<open>x\<close>, and \<open>- 126\<close> for the smaller values. A result that rounds to
  \<open>2 ^ 128\<close> or beyond is an infinity in C and has no real value; it stays as it is here.
\<close>

definition round_even :: "real \<Rightarrow> int" where
  "round_even q =
     (let f = \<lfloor>q\<rfloor>; d = q - of_int f
      in if d < 1 / 2 then f
         else if d > 1 / 2 then f + 1
         else if even f then f else f + 1)"

definition float32 :: "real \<Rightarrow> real" where
  "float32 x =
     (if x = 0 \<or> 2 ^ 128 - 2 ^ 103 \<le> \<bar>x\<bar> then x
      else (let e = max \<lfloor>log 2 \<bar>x\<bar>\<rfloor> (- 126);
                u = 2 powr (of_int e - 23)
            in of_int (round_even (x / u)) * u))"

section \<open>RotateBSPTree\<close>

text \<open>
  \<^verbatim>\<open>
  if ((StringEquals(Degrees, "90") && Node->Split == Split_Vertical) ||
      (StringEquals(Degrees, "270") && Node->Split == Split_Horizontal) ||
      (StringEquals(Degrees, "180"))) {
      node *Temp = Node->Left; Node->Left = Node->Right; Node->Right = Temp;
      Node->Ratio = 1 - Node->Ratio;
  }
  if (!StringEquals(Degrees, "180")) {
      if      (Node->Split == Split_Horizontal)   Node->Split = Split_Vertical;
      else if (Node->Split == Split_Vertical)     Node->Split = Split_Horizontal;
  }
  if (!IsLeafNode(Node)) {
      RotateBSPTree(Node->Left, Degrees);
      RotateBSPTree(Node->Right, Degrees);
  }
  \<close>
  \<open>Node->Ratio\<close> is a \<open>float\<close>: \<open>1 - Node->Ratio\<close> is a subtraction of floats, and the
  value stored is the float nearest to the exact difference.
\<close>

definition RotateSwaps :: "string \<Rightarrow> node_data \<Rightarrow> bool" where
  "RotateSwaps Degrees d \<longleftrightarrow>
     (Degrees = ''90'' \<and> Split d = Split_Vertical) \<or>
     (Degrees = ''270'' \<and> Split d = Split_Horizontal) \<or>
     Degrees = ''180''"

definition RotateNode :: "string \<Rightarrow> node_data \<Rightarrow> node_data" where
  "RotateNode Degrees d =
     (let d1 = (if RotateSwaps Degrees d then d\<lparr>Ratio := float32 (1 - Ratio d)\<rparr> else d)
      in if Degrees \<noteq> ''180''
         then (if Split d1 = Split_Horizontal then d1\<lparr>Split := Split_Vertical\<rparr>
               else if Split d1 = Split_Vertical then d1\<lparr>Split := Split_Horizontal\<rparr>
               else d1)
         else d1)"

fun RotateBSPTree :: "bsp \<Rightarrow> string \<Rightarrow> bsp" where
  "RotateBSPTree (Leaf d) Degrees = Leaf (RotateNode Degrees d)"
| "RotateBSPTree (Branch d l r) Degrees =
     (if RotateSwaps Degrees d
      then Branch (RotateNode Degrees d) (RotateBSPTree r Degrees) (RotateBSPTree l Degrees)
      else Branch (RotateNode Degrees d) (RotateBSPTree l Degrees) (RotateBSPTree r Degrees))"

text \<open>The orientation toggle of the second \<open>if\<close>: other split values stay.\<close>

fun toggle_split :: "node_split \<Rightarrow> node_split" where
  "toggle_split Split_Horizontal = Split_Vertical"
| "toggle_split Split_Vertical = Split_Horizontal"
| "toggle_split s = s"

text \<open>
  The rotation by 90 degrees in the words of the specification: children are swapped at
  the nodes whose split is vertical, every split is toggled, no ratio changes.
\<close>

fun Rotate90_described :: "bsp \<Rightarrow> bsp" where
  "Rotate90_described (Leaf d) = Leaf (d\<lparr>Split := toggle_split (Split d)\<rparr>)"
| "Rotate90_described (Branch d l r) =
     (if Split d = Split_Vertical
      then Branch (d\<lparr>Split := toggle_split (Split d)\<rparr>) (Rotate90_described r) (Rotate90_described l)
      else Branch (d\<lparr>Split := toggle_split (Split d)\<rparr>) (Rotate90_described l) (Rotate90_described r))"

text \<open>
  What the code does: the ratio is complemented together with the swap of the children,
  so at 90 degrees at the vertical nodes, and at 180 degrees at every node.
\<close>

fun Rotate90_swapping :: "bsp \<Rightarrow> bsp" where
  "Rotate90_swapping (Leaf d) =
     Leaf (if Split d = Split_Vertical
           then d\<lparr>Ratio := float32 (1 - Ratio d), Split := Split_Horizontal\<rparr>
           else d\<lparr>Split := toggle_split (Split d)\<rparr>)"
| "Rotate90_swapping (Branch d l r) =
     (if Split d = Split_Vertical
      then Branch (d\<lparr>Ratio := float32 (1 - Ratio d), Split := Split_Horizontal\<rparr>)
             (Rotate90_swapping r) (Rotate90_swapping l)
      else Branch (d\<lparr>Split := toggle_split (Split d)\<rparr>)
             (Rotate90_swapping l) (Rotate90_swapping r))"

fun Rotate180_swapping :: "bsp \<Rightarrow> bsp" where
  "Rotate180_swapping (Leaf d) = Leaf (d\<lparr>Ratio := float32 (1 - Ratio d)\<rparr>)"
| "Rotate180_swapping (Branch d l r) =
     Branch (d\<lparr>Ratio := float32 (1 - Ratio d)\<rparr>) (Rotate180_swapping r) (Rotate180_swapping l)"

text \<open>
  Two windows side by side, the left one on a quarter of the width. The ratios 1/4 and
  1/2 and their complements are floats.
\<close>

definition two_windows :: bsp where
  "two_windows =
     Branch \<lparr>WindowId = 0, Split = Split_Vertical, Ratio = 1 / 4,
             Region = \<lparr>X = 0, Y = 0, Width = 1000, Height = 800\<rparr>\<rparr>
       (Leaf \<lparr>WindowId = 1, Split = Split_None, Ratio = 1 / 2,
              Region = \<lparr>X = 0, Y = 0, Width = 250, Height = 800\<rparr>\<rparr>)
       (Leaf \<lparr>WindowId = 2, Split = Split_None, Ratio = 1 / 2,
              Region = \<lparr>X = 250, Y = 0, Width = 750, Height = 800\<rparr>\<rparr>)"

section \<open>Two rotations by 180 degrees\<close>

text \<open>
  The tree with every ratio complemented twice, each time rounded as the code rounds it.
\<close>

fun complemented_twice :: "bsp \<Rightarrow> bsp" where
  "complemented_twice (Leaf d) = Leaf (d\<lparr>Ratio := float32 (1 - float32 (1 - Ratio d))\<rparr>)"
| "complemented_twice (Branch d l r) =
     Branch (d\<lparr>Ratio := float32 (1 - float32 (1 - Ratio d))\<rparr>)
       (complemented_twice l) (complemented_twice r)"

text \<open>
  A ratio whose complement is computed without rounding: the ratio is a float and so is
  its exact complement. \<open>complements_exact\<close> says so of every node of a tree.
\<close>

definition exact_complement :: "real \<Rightarrow> bool" where
  "exact_complement r \<longleftrightarrow> float32 r = r \<and> float32 (1 - r) = 1 - r"

fun complements_exact :: "bsp \<Rightarrow> bool" where
  "complements_exact (Leaf d) \<longleftrightarrow> exact_complement (Ratio d)"
| "complements_exact (Branch d l r) \<longleftrightarrow>
     exact_complement (Ratio d) \<and> complements_exact l \<and> complements_exact r"

text \<open>
  Two windows side by side whose root has the ratio \<open>0.4f\<close>, the float nearest to 0.4:
  \<open>13421773 / 2 ^ 25\<close>.
\<close>

definition narrow_left :: bsp where
  "narrow_left =
     Branch \<lparr>WindowId = 0, Split = Split_Vertical, Ratio = 13421773 / 33554432,
             Region = \<lparr>X = 0, Y = 0, Width = 1000, Height = 800\<rparr>\<rparr>
       (Leaf \<lparr>WindowId = 1, Split = Split_None, Ratio = 1 / 2,
              Region = \<lparr>X = 0, Y = 0, Width = 400, Height = 800\<rparr>\<rparr>)
       (Leaf \<lparr>WindowId = 2, Split = Split_None, Ratio = 1 / 2,
              Region = \<lparr>X = 400, Y = 0, Width = 600, Height = 800\<rparr>\<rparr>)"

section \<open>Nodes in memory, workspaces and the collaborators of the controller\<close>

text \<open>
  The commands of the controller follow pointers (\<open>Node->Parent->Zoom\<close>,
  \<open>WindowNode->Left\<close>) and compare them, so they are modelled on a store of nodes: a
  pointer is an address, NULL is \<open>None\<close>. In monocle mode \<open>Left\<close> and \<open>Right\<close> are
  the predecessor and successor of a list node.
\<close>

type_synonym addr = nat

record node = node_data +
  Parent :: "addr option"
  Left :: "addr option"
  Right :: "addr option"
  Zoom :: "addr option"

type_synonym heap = "addr \<Rightarrow> node"

datatype virtual_space_mode = Virtual_Space_Bsp | Virtual_Space_Monocle | Virtual_Space_Float

record virtual_space =
  Mode :: virtual_space_mode
  Tree :: "addr option"

datatype CGSSpaceType = kCGSSpaceUser | kCGSSpaceFullscreen | kCGSSpaceSystem

type_synonym CGSSpaceID = int

record macos_space =
  space_Id :: CGSSpaceID
  space_Type :: CGSSpaceType

record CGRect =
  origin_x :: real
  origin_y :: real
  size_width :: real
  size_height :: real

record macos_window =
  window_Id :: "32 word"
  window_Float :: bool

text \<open>
  Calls that leave the controller: to the accessibility bridge, the log and the region
  engine. A run of a command appends them to \<open>Calls\<close> in the order of the source.
  A position or size that has no real value (a quotient by zero in C) is \<open>None\<close>.
\<close>

datatype call =
    ResizeWindow "32 word" region
  | Call_ResizeNodeRegion addr
  | Call_ApplyNodeRegion addr
  | c_log_WARN string
  | AXLibSpaceMoveWindow CGSSpaceID "32 word"
  | AXLibSetFocusedWindow "32 word"
  | AXLibSetFocusedApplication "32 word"
  | AXLibSetWindowPosition "32 word" "(real \<times> real) option"
  | AXLibSetWindowSize "32 word" "(real \<times> real) option"

record world =
  Nodes :: heap
  VirtualSpace :: virtual_space
  Cursor :: "real \<times> real"
  CVAR_BSP_INSERTION_POINT :: "32 word"
  Calls :: "call list"

text \<open>
  The functions that controller.cpp declares \<open>extern\<close> or takes from node.h, region.h,
  the accessibility library, libc and the configuration are not part of controller.cpp:
  they are parameters of the model, collected in one record. A result that is a pointer
  may be NULL. \<open>sscanf_d Op\<close> is the value stored by \<open>sscanf(Op, "%d", &Id)\<close> when it
  returns 1.
\<close>

record ext =
  GetWindowByID :: "32 word \<Rightarrow> macos_window option"
  GetFocusedWindow :: "macos_window option"
  AXLibActiveSpace :: "macos_space option"
  GetAllVisibleWindowsForSpace :: "macos_space \<Rightarrow> 32 word list"
  GetAllVisibleWindowsForSpace3 :: "macos_space \<Rightarrow> bool \<Rightarrow> bool \<Rightarrow> 32 word list"
  AXLibGetDisplayIdentifierFromSpace :: "CGSSpaceID \<Rightarrow> string option"
  AXLibGetDisplayBounds :: "string \<Rightarrow> CGRect"
  AXLibActiveSpaceOfDisplay :: "string \<Rightarrow> macos_space"
  AXLibSpacesForWindow :: "32 word \<Rightarrow> macos_space list"
  AXLibCGSSpaceIDToDesktopID :: "CGSSpaceID \<Rightarrow> (32 word \<times> 32 word) option"
  AXLibCGSSpaceIDFromDesktopID :: "32 word \<Rightarrow> (32 word \<times> CGSSpaceID) option"
  AXLibGetWindowPosition :: "macos_window \<Rightarrow> real \<times> real"
  AXLibGetWindowSize :: "macos_window \<Rightarrow> real \<times> real"
  IsWindowValid :: "macos_window \<Rightarrow> bool"
  sscanf_d :: "string \<Rightarrow> 32 word option"
  CVAR_BSP_SPLIT_RATIO :: real
  CVAR_MOUSE_FOLLOWS_FOCUS :: int
  CVAR_WINDOW_FOCUS_CYCLE :: string
  GetNodeWithId :: "heap \<Rightarrow> addr \<Rightarrow> 32 word \<Rightarrow> virtual_space_mode \<Rightarrow> addr option"
  GetPrevLeafNode :: "heap \<Rightarrow> addr \<Rightarrow> addr option"
  GetNextLeafNode :: "heap \<Rightarrow> addr \<Rightarrow> addr option"
  GetFirstLeafNode :: "heap \<Rightarrow> addr \<Rightarrow> addr option"
  GetLastLeafNode :: "heap \<Rightarrow> addr \<Rightarrow> addr option"
  GetBiggestLeafNode :: "heap \<Rightarrow> addr \<Rightarrow> addr option"
  GetLowestCommonAncestor :: "heap \<Rightarrow> addr \<Rightarrow> addr \<Rightarrow> addr option"
  IsNodeInTree :: "heap \<Rightarrow> addr option \<Rightarrow> addr \<Rightarrow> bool"
  IsLeafNode :: "heap \<Rightarrow> addr \<Rightarrow> bool"
  ResizeNodeRegion :: "addr \<Rightarrow> heap \<Rightarrow> heap"
  UntileWindowFromSpace :: "macos_window \<Rightarrow> macos_space \<Rightarrow> world \<Rightarrow> world"
  TileWindowOnSpace :: "macos_window \<Rightarrow> macos_space \<Rightarrow> world \<Rightarrow> world"

text \<open>
  \<open>ASSERT\<close> stops the process when its condition fails, and so does reading through a
  NULL pointer: both are results of the model.
\<close>

datatype error = AssertionFailed | NullDereference

definition add_call :: "call \<Rightarrow> world \<Rightarrow> world" where
  "add_call c w = w\<lparr>Calls := Calls w @ [c]\<rparr>"

text \<open>
  Modelled from the spec: \<open>SwapNodeIds\<close> is defined in node.cpp, which is not among the
  sources. ``\<open>SwapNodeIds(a, b)\<close>: exchange \<open>WindowId\<close> between two leaves (not their
  subtree positions).''
\<close>

definition SwapNodeIds :: "addr \<Rightarrow> addr \<Rightarrow> heap \<Rightarrow> heap" where
  "SwapNodeIds A B h =
     (let TempId = WindowId (h A);
          h1 = h(A := (h A)\<lparr>WindowId := WindowId (h B)\<rparr>)
      in h1(B := (h1 B)\<lparr>WindowId := TempId\<rparr>))"

text \<open>
  Modelled from the spec: \<open>ResizeWindowToRegionSize\<close> and
  \<open>ResizeWindowToExternalRegionSize\<close> are defined in region.cpp, which is not among the
  sources. The first sizes the window bound to the node to the node's own region (``reverts
  a zoomed window to its \<open>n.Region\<close>''), the second to the region it is given.
\<close>

definition ResizeWindowToRegionSize :: "addr \<Rightarrow> world \<Rightarrow> world" where
  "ResizeWindowToRegionSize n w =
     add_call (ResizeWindow (WindowId (Nodes w n)) (Region (Nodes w n))) w"

definition ResizeWindowToExternalRegionSize :: "addr \<Rightarrow> region \<Rightarrow> world \<Rightarrow> world" where
  "ResizeWindowToExternalRegionSize n R w =
     add_call (ResizeWindow (WindowId (Nodes w n)) R) w"

subsection \<open>Mouse\<close>

definition IsCursorInRegion :: "world \<Rightarrow> region \<Rightarrow> bool" where
  "IsCursorInRegion w R \<longleftrightarrow>
     fst (Cursor w) \<ge> X R \<and> snd (Cursor w) \<ge> Y R \<and>
     fst (Cursor w) \<le> X R + Width R \<and> snd (Cursor w) \<le> Y R + Height R"

definition CenterMouseInRegion :: "region \<Rightarrow> world \<Rightarrow> world" where
  "CenterMouseInRegion R w =
     (if \<not> IsCursorInRegion w R
      then w\<lparr>Cursor := (X R + Width R / 2, Y R + Height R / 2)\<rparr>
      else w)"

section \<open>Geometric search\<close>

datatype directions = Dir_Unknown | Dir_North | Dir_East | Dir_South | Dir_West

definition DirectionFromString :: "string \<Rightarrow> directions" where
  "DirectionFromString Direction =
     (if Direction = ''north'' then Dir_North
      else if Direction = ''east'' then Dir_East
      else if Direction = ''south'' then Dir_South
      else if Direction = ''west'' then Dir_West
      else Dir_Unknown)"

text \<open>
  The functions of math.h, as the real functions they compute: \<open>hypot\<close>, and \<open>atan2\<close> with
  values in the interval from \<open>-pi\<close> to \<open>pi\<close>; \<open>fabs\<close>, \<open>fmax\<close>, \<open>fmin\<close> and
  \<open>cos\<close> are \<open>abs\<close>, \<open>max\<close>, \<open>min\<close> and \<open>cos\<close>.
\<close>

definition hypot :: "real \<Rightarrow> real \<Rightarrow> real" where
  "hypot a b = sqrt (a\<^sup>2 + b\<^sup>2)"

definition atan2 :: "real \<Rightarrow> real \<Rightarrow> real" where
  "atan2 b a =
     (if a > 0 then arctan (b / a)
      else if a < 0 then (if b \<ge> 0 then arctan (b / a) + pi else arctan (b / a) - pi)
      else if b > 0 then pi / 2
      else if b < 0 then - (pi / 2)
      else 0)"

text \<open>
  \<open>WrapMonitorEdge\<close> changes \<open>*X2\<close> or \<open>*Y2\<close>; the model returns the four coordinates.
  The display reference is released without a check, so a NULL reference stops the
  process.
\<close>

definition WrapMonitorEdge ::
  "ext \<Rightarrow> macos_space \<Rightarrow> directions \<Rightarrow> real \<times> real \<times> real \<times> real
     \<Rightarrow> error + (real \<times> real \<times> real \<times> real)" where
  "WrapMonitorEdge E Space Direction c =
     (case AXLibGetDisplayIdentifierFromSpace E (space_Id Space) of
        None \<Rightarrow> Inl NullDereference
      | Some DisplayRef \<Rightarrow>
          (let Display = AXLibGetDisplayBounds E DisplayRef in
           case c of (X1, X2, Y1, Y2) \<Rightarrow>
             (case Direction of
                Dir_North \<Rightarrow> Inr (X1, X2, Y1, if Y1 < Y2 then Y2 - size_height Display else Y2)
              | Dir_East \<Rightarrow> Inr (X1, if X1 > X2 then X2 + size_width Display else X2, Y1, Y2)
              | Dir_South \<Rightarrow> Inr (X1, X2, Y1, if Y1 > Y2 then Y2 + size_height Display else Y2)
              | Dir_West \<Rightarrow> Inr (X1, if X1 < X2 then X2 - size_width Display else X2, Y1, Y2)
              | Dir_Unknown \<Rightarrow> Inr (X1, X2, Y1, Y2))))"

text \<open>
  The part of \<open>GetWindowDistance\<close> after the optional wrap: the deltas, the angle, the
  rejection test of the direction and the quotient.
\<close>

definition DirectedDistance :: "directions \<Rightarrow> real \<Rightarrow> real \<Rightarrow> real \<Rightarrow> real \<Rightarrow> real" where
  "DirectedDistance Direction X1 Y1 X2 Y2 =
     (let DeltaX = X2 - X1;
          DeltaY = Y2 - Y1;
          Angle = atan2 DeltaY DeltaX;
          Distance = hypot DeltaX DeltaY
      in case Direction of
           Dir_North \<Rightarrow>
             if DeltaY \<ge> 0 then 0xFFFFFFFF
             else Distance / cos ((- (pi / 2) - Angle) / 2)
         | Dir_East \<Rightarrow>
             if DeltaX \<le> 0 then 0xFFFFFFFF
             else Distance / cos ((0 - Angle) / 2)
         | Dir_South \<Rightarrow>
             if DeltaY \<le> 0 then 0xFFFFFFFF
             else Distance / cos ((pi / 2 - Angle) / 2)
         | Dir_West \<Rightarrow>
             if DeltaX \<ge> 0 then 0xFFFFFFFF
             else Distance / cos ((pi - \<bar>Angle\<bar>) / 2)
         | Dir_Unknown \<Rightarrow> Distance / cos (0 / 2))"

definition GetWindowDistance ::
  "ext \<Rightarrow> macos_space \<Rightarrow> real \<Rightarrow> real \<Rightarrow> real \<Rightarrow> real \<Rightarrow> string \<Rightarrow> bool \<Rightarrow> error + real" where
  "GetWindowDistance E Space X1 Y1 X2 Y2 Op Wrap =
     (let Direction = DirectionFromString Op in
      if Wrap
      then (case WrapMonitorEdge E Space Direction (X1, X2, Y1, Y2) of
              Inl e \<Rightarrow> Inl e
            | Inr (X1', X2', Y1', Y2') \<Rightarrow> Inr (DirectedDistance Direction X1' Y1' X2' Y2'))
      else Inr (DirectedDistance Direction X1 Y1 X2 Y2))"

definition WindowIsInDirection ::
  "string \<Rightarrow> real \<Rightarrow> real \<Rightarrow> real \<Rightarrow> real \<Rightarrow> real \<Rightarrow> real \<Rightarrow> real \<Rightarrow> real \<Rightarrow> bool" where
  "WindowIsInDirection Op X1 Y1 W1 H1 X2 Y2 W2 H2 =
     (case DirectionFromString Op of
        Dir_North \<Rightarrow> Y1 \<noteq> Y2 \<and> max X1 X2 < min (X2 + W2) (X1 + W1)
      | Dir_South \<Rightarrow> Y1 \<noteq> Y2 \<and> max X1 X2 < min (X2 + W2) (X1 + W1)
      | Dir_East \<Rightarrow> X1 \<noteq> X2 \<and> max Y1 Y2 < min (Y2 + H2) (Y1 + H1)
      | Dir_West \<Rightarrow> X1 \<noteq> X2 \<and> max Y1 Y2 < min (Y2 + H2) (Y1 + H1)
      | Dir_Unknown \<Rightarrow> False)"

text \<open>
  One round of the loop of \<open>FindClosestWindow\<close>, on the pair of \<open>MinDist\<close> and
  \<open>*ClosestWindow\<close> (not yet written before the first hit).
\<close>

definition FindClosestWindow_step ::
  "ext \<Rightarrow> world \<Rightarrow> macos_space \<Rightarrow> addr \<Rightarrow> macos_window \<Rightarrow> string \<Rightarrow> bool
     \<Rightarrow> error + (real \<times> macos_window option) \<Rightarrow> 32 word
     \<Rightarrow> error + (real \<times> macos_window option)" where
  "FindClosestWindow_step E w Space T Match Direction Wrap acc Index =
     (case acc of
        Inl e \<Rightarrow> Inl e
      | Inr (MinDist, Closest) \<Rightarrow>
          (case GetWindowByID E Index of
             None \<Rightarrow> acc
           | Some Window \<Rightarrow>
               if window_Id Match = window_Id Window then acc
               else
                 (case GetNodeWithId E (Nodes w) T (window_Id Match) (Mode (VirtualSpace w)) of
                    None \<Rightarrow> acc
                  | Some NodeA \<Rightarrow>
                      (case GetNodeWithId E (Nodes w) T (window_Id Window) (Mode (VirtualSpace w)) of
                         None \<Rightarrow> acc
                       | Some NodeB \<Rightarrow>
                           if NodeA = NodeB then acc
                           else
                             (let A = Region (Nodes w NodeA); B = Region (Nodes w NodeB) in
                              if WindowIsInDirection Direction
                                   (X A) (Y A) (Width A) (Height A)
                                   (X B) (Y B) (Width B) (Height B)
                              then
                                (case GetWindowDistance E Space
                                        (X A + Width A / 2) (Y A + Height A / 2)
                                        (X B + Width B / 2) (Y B + Height B / 2)
                                        Direction Wrap of
                                   Inl e \<Rightarrow> Inl e
                                 | Inr Dist \<Rightarrow>
                                     if Dist < MinDist then Inr (Dist, Some Window) else acc)
                              else acc)))))"

text \<open>The result is \<open>Some\<close> window when the function returns true.\<close>

definition FindClosestWindow ::
  "ext \<Rightarrow> world \<Rightarrow> macos_space \<Rightarrow> addr \<Rightarrow> macos_window \<Rightarrow> string \<Rightarrow> bool
     \<Rightarrow> error + macos_window option" where
  "FindClosestWindow E w Space T Match Direction Wrap =
     (case foldl (FindClosestWindow_step E w Space T Match Direction Wrap)
             (Inr (0xFFFFFFFF, None)) (GetAllVisibleWindowsForSpace E Space) of
        Inl e \<Rightarrow> Inl e
      | Inr (MinDist, Closest) \<Rightarrow> Inr (if MinDist \<noteq> 0xFFFFFFFF then Closest else None))"

definition WindowOfNode :: "ext \<Rightarrow> world \<Rightarrow> addr \<Rightarrow> error + macos_window option" where
  "WindowOfNode E w n =
     (case GetWindowByID E (WindowId (Nodes w n)) of
        None \<Rightarrow> Inl AssertionFailed
      | Some ClosestWindow \<Rightarrow> Inr (Some ClosestWindow))"

definition FindWindowUndirected ::
  "ext \<Rightarrow> world \<Rightarrow> addr \<Rightarrow> addr \<Rightarrow> string \<Rightarrow> bool \<Rightarrow> error + macos_window option" where
  "FindWindowUndirected E w T WindowNode Direction WrapMonitor =
     (if Direction = ''prev'' then
        (case GetPrevLeafNode E (Nodes w) WindowNode of
           Some PrevNode \<Rightarrow> WindowOfNode E w PrevNode
         | None \<Rightarrow>
             if WrapMonitor
             then (case GetLastLeafNode E (Nodes w) T of
                     None \<Rightarrow> Inl NullDereference
                   | Some PrevNode \<Rightarrow> WindowOfNode E w PrevNode)
             else Inr None)
      else if Direction = ''next'' then
        (case GetNextLeafNode E (Nodes w) WindowNode of
           Some NextNode \<Rightarrow> WindowOfNode E w NextNode
         | None \<Rightarrow>
             if WrapMonitor
             then (case GetFirstLeafNode E (Nodes w) T of
                     None \<Rightarrow> Inl NullDereference
                   | Some NextNode \<Rightarrow> WindowOfNode E w NextNode)
             else Inr None)
      else if Direction = ''biggest'' then
        (case GetBiggestLeafNode E (Nodes w) T of
           Some BiggestNode \<Rightarrow> WindowOfNode E w BiggestNode
         | None \<Rightarrow> Inr None)
      else Inr None)"

text \<open>
  The search shared by \<open>SwapWindow\<close>, \<open>WarpWindow\<close> and \<open>AdjustWindowRatio\<close>:
  \<^verbatim>\<open>
  if (!FindWindowUndirected(Space, VirtualSpace, WindowNode, &ClosestWindow, Direction, false)) {
      if (!FindClosestWindow(Space, VirtualSpace, Window, &ClosestWindow, Direction, false)) {
          goto vspace_release;
  \<close>
\<close>

definition FindTargetWindow ::
  "ext \<Rightarrow> world \<Rightarrow> macos_space \<Rightarrow> addr \<Rightarrow> macos_window \<Rightarrow> addr \<Rightarrow> string
     \<Rightarrow> error + macos_window option" where
  "FindTargetWindow E w Space T Window WindowNode Direction =
     (case FindWindowUndirected E w T WindowNode Direction False of
        Inl e \<Rightarrow> Inl e
      | Inr (Some ClosestWindow) \<Rightarrow> Inr (Some ClosestWindow)
      | Inr None \<Rightarrow> FindClosestWindow E w Space T Window Direction False)"

section \<open>SwapWindow and WarpWindow\<close>

text \<open>
  The exchange of the BSP branch of \<open>SwapWindow\<close> (and of \<open>WarpWindow\<close> for two
  children of one parent):
  \<^verbatim>\<open>
  SwapNodeIds(WindowNode, ClosestNode);
  ResizeWindowToRegionSize(WindowNode);
  ResizeWindowToRegionSize(ClosestNode);
  \<close>
\<close>

definition SwapAndResize :: "addr \<Rightarrow> addr \<Rightarrow> world \<Rightarrow> world" where
  "SwapAndResize WindowNode ClosestNode w =
     ResizeWindowToRegionSize ClosestNode
       (ResizeWindowToRegionSize WindowNode
          (w\<lparr>Nodes := SwapNodeIds WindowNode ClosestNode (Nodes w)\<rparr>))"

definition MouseFollowsFocus :: "ext \<Rightarrow> addr \<Rightarrow> world \<Rightarrow> world" where
  "MouseFollowsFocus E n w =
     (if CVAR_MOUSE_FOLLOWS_FOCUS E \<noteq> 0
      then CenterMouseInRegion (Region (Nodes w n)) w
      else w)"

text \<open>
  The local variable \<open>ClosestNode\<close> of the monocle branch, the same in \<open>SwapWindow\<close>
  and \<open>WarpWindow\<close>:
  \<^verbatim>\<open>
  if ((StringEquals(Direction, "west")) || (StringEquals(Direction, "prev"))) {
      ClosestNode = WindowNode->Left ? WindowNode->Left : GetLastLeafNode(VirtualSpace->Tree);
  } else if ((StringEquals(Direction, "east")) || (StringEquals(Direction, "next"))) {
      ClosestNode = WindowNode->Right ? WindowNode->Right : GetFirstLeafNode(VirtualSpace->Tree);
  } else {
      ClosestNode = NULL;
  }
  if (ClosestNode && ClosestNode != WindowNode) {
      SwapNodeIds(WindowNode, ClosestNode);
  }
  \<close>
\<close>

definition Monocle_ClosestNode :: "ext \<Rightarrow> world \<Rightarrow> addr \<Rightarrow> addr \<Rightarrow> string \<Rightarrow> addr option" where
  "Monocle_ClosestNode E w T WindowNode Direction =
     (if Direction = ''west'' \<or> Direction = ''prev'' then
        (case Left (Nodes w WindowNode) of
           Some l \<Rightarrow> Some l
         | None \<Rightarrow> GetLastLeafNode E (Nodes w) T)
      else if Direction = ''east'' \<or> Direction = ''next'' then
        (case Right (Nodes w WindowNode) of
           Some r \<Rightarrow> Some r
         | None \<Rightarrow> GetFirstLeafNode E (Nodes w) T)
      else None)"

definition Monocle_Swap :: "ext \<Rightarrow> world \<Rightarrow> addr \<Rightarrow> addr \<Rightarrow> string \<Rightarrow> world" where
  "Monocle_Swap E w T WindowNode Direction =
     (case Monocle_ClosestNode E w T WindowNode Direction of
        None \<Rightarrow> w
      | Some ClosestNode \<Rightarrow>
          if ClosestNode \<noteq> WindowNode
          then w\<lparr>Nodes := SwapNodeIds WindowNode ClosestNode (Nodes w)\<rparr>
          else w)"

definition SwapWindow :: "ext \<Rightarrow> string \<Rightarrow> world \<Rightarrow> error + world" where
  "SwapWindow E Direction w =
     (case GetWindowByID E (CVAR_BSP_INSERTION_POINT w) of
        None \<Rightarrow> Inr w
      | Some Window \<Rightarrow>
          (case AXLibActiveSpace E of
             None \<Rightarrow> Inl AssertionFailed
           | Some Space \<Rightarrow>
               if space_Type Space \<noteq> kCGSSpaceUser then Inr w
               else
                 (case Tree (VirtualSpace w) of
                    None \<Rightarrow> Inr w
                  | Some T \<Rightarrow>
                      (case Mode (VirtualSpace w) of
                         Virtual_Space_Float \<Rightarrow> Inr w
                       | Virtual_Space_Bsp \<Rightarrow>
                           (case GetNodeWithId E (Nodes w) T (window_Id Window) (Mode (VirtualSpace w)) of
                              None \<Rightarrow> Inr w
                            | Some WindowNode \<Rightarrow>
                                (case FindTargetWindow E w Space T Window WindowNode Direction of
                                   Inl e \<Rightarrow> Inl e
                                 | Inr None \<Rightarrow> Inr w
                                 | Inr (Some ClosestWindow) \<Rightarrow>
                                     (case GetNodeWithId E (Nodes w) T (window_Id ClosestWindow)
                                             (Mode (VirtualSpace w)) of
                                        None \<Rightarrow> Inl AssertionFailed
                                      | Some ClosestNode \<Rightarrow>
                                          Inr (MouseFollowsFocus E ClosestNode
                                                 (SwapAndResize WindowNode ClosestNode w)))))
                       | Virtual_Space_Monocle \<Rightarrow>
                           (case GetNodeWithId E (Nodes w) T (window_Id Window) (Mode (VirtualSpace w)) of
                              None \<Rightarrow> Inr w
                            | Some WindowNode \<Rightarrow> Inr (Monocle_Swap E w T WindowNode Direction))))))"

text \<open>
  The branch of \<open>WarpWindow\<close> that changes the layout: the window is untiled, tiled again
  with the insertion point on the target, and looked up in the new tree.
\<close>

definition WarpRetile ::
  "ext \<Rightarrow> macos_window \<Rightarrow> macos_window \<Rightarrow> macos_space \<Rightarrow> world \<Rightarrow> error + world" where
  "WarpRetile E Window ClosestWindow Space w =
     (let w1 = UntileWindowFromSpace E Window Space w;
          w2 = w1\<lparr>CVAR_BSP_INSERTION_POINT := window_Id ClosestWindow\<rparr>;
          w3 = TileWindowOnSpace E Window Space w2;
          w4 = w3\<lparr>CVAR_BSP_INSERTION_POINT := window_Id Window\<rparr>
      in case Tree (VirtualSpace w4) of
           None \<Rightarrow> Inl AssertionFailed
         | Some T' \<Rightarrow>
             (case GetNodeWithId E (Nodes w4) T' (window_Id Window) (Mode (VirtualSpace w4)) of
                None \<Rightarrow> Inl AssertionFailed
              | Some FocusedNode \<Rightarrow> Inr (MouseFollowsFocus E FocusedNode w4)))"

definition WarpWindow :: "ext \<Rightarrow> string \<Rightarrow> world \<Rightarrow> error + world" where
  "WarpWindow E Direction w =
     (case GetWindowByID E (CVAR_BSP_INSERTION_POINT w) of
        None \<Rightarrow> Inr w
      | Some Window \<Rightarrow>
          (case AXLibActiveSpace E of
             None \<Rightarrow> Inl AssertionFailed
           | Some Space \<Rightarrow>
               if space_Type Space \<noteq> kCGSSpaceUser then Inr w
               else
                 (case Tree (VirtualSpace w) of
                    None \<Rightarrow> Inr w
                  | Some T \<Rightarrow>
                      (case Mode (VirtualSpace w) of
                         Virtual_Space_Float \<Rightarrow> Inr w
                       | Virtual_Space_Bsp \<Rightarrow>
                           (case GetNodeWithId E (Nodes w) T (window_Id Window) (Mode (VirtualSpace w)) of
                              None \<Rightarrow> Inl AssertionFailed
                            | Some WindowNode \<Rightarrow>
                                (case FindTargetWindow E w Space T Window WindowNode Direction of
                                   Inl e \<Rightarrow> Inl e
                                 | Inr None \<Rightarrow> Inr w
                                 | Inr (Some ClosestWindow) \<Rightarrow>
                                     (case GetNodeWithId E (Nodes w) T (window_Id ClosestWindow)
                                             (Mode (VirtualSpace w)) of
                                        None \<Rightarrow> Inl AssertionFailed
                                      | Some ClosestNode \<Rightarrow>
                                          if Parent (Nodes w WindowNode) = Parent (Nodes w ClosestNode)
                                          then Inr (MouseFollowsFocus E ClosestNode
                                                      (SwapAndResize WindowNode ClosestNode w))
                                          else WarpRetile E Window ClosestWindow Space w)))
                       | Virtual_Space_Monocle \<Rightarrow>
                           (case GetNodeWithId E (Nodes w) T (window_Id Window) (Mode (VirtualSpace w)) of
                              None \<Rightarrow> Inr w
                            | Some WindowNode \<Rightarrow> Inr (Monocle_Swap E w T WindowNode Direction))))))"

section \<open>ToggleWindowFullscreenZoom and ToggleWindowParentZoom\<close>

definition set_Zoom :: "addr \<Rightarrow> addr option \<Rightarrow> world \<Rightarrow> world" where
  "set_Zoom n z w = w\<lparr>Nodes := (Nodes w)(n := (Nodes w n)\<lparr>Zoom := z\<rparr>)\<rparr>"

text \<open>
  The body of \<open>ToggleWindowFullscreenZoom\<close> once \<open>Node\<close> is found:
  \<^verbatim>\<open>
  if (VirtualSpace->Tree->Zoom == Node) {
      ResizeWindowToRegionSize(Node);
      VirtualSpace->Tree->Zoom = NULL;
  } else {
      if (Node->Parent && Node->Parent->Zoom == Node) {
          Node->Parent->Zoom = NULL;
      }
      if (VirtualSpace->Tree->Zoom) {
          ResizeWindowToRegionSize(VirtualSpace->Tree->Zoom);
      }
      VirtualSpace->Tree->Zoom = Node;
      ResizeWindowToExternalRegionSize(Node, VirtualSpace->Tree->Region);
  }
  \<close>
\<close>

definition FullscreenZoomNode :: "addr \<Rightarrow> addr \<Rightarrow> world \<Rightarrow> world" where
  "FullscreenZoomNode T Node w =
     (if Zoom (Nodes w T) = Some Node
      then set_Zoom T None (ResizeWindowToRegionSize Node w)
      else
        (let w1 = (case Parent (Nodes w Node) of
                     None \<Rightarrow> w
                   | Some P \<Rightarrow> if Zoom (Nodes w P) = Some Node then set_Zoom P None w else w);
             w2 = (case Zoom (Nodes w1 T) of
                     None \<Rightarrow> w1
                   | Some Z \<Rightarrow> ResizeWindowToRegionSize Z w1);
             w3 = set_Zoom T (Some Node) w2
         in ResizeWindowToExternalRegionSize Node (Region (Nodes w3 T)) w3))"

definition ToggleWindowFullscreenZoom :: "ext \<Rightarrow> world \<Rightarrow> error + world" where
  "ToggleWindowFullscreenZoom E w =
     (case AXLibActiveSpace E of
        None \<Rightarrow> Inl AssertionFailed
      | Some Space \<Rightarrow>
          if space_Type Space \<noteq> kCGSSpaceUser then Inr w
          else
            (case Tree (VirtualSpace w) of
               None \<Rightarrow> Inr w
             | Some T \<Rightarrow>
                 if Mode (VirtualSpace w) \<noteq> Virtual_Space_Bsp then Inr w
                 else
                   (case GetFocusedWindow E of
                      None \<Rightarrow> Inr w
                    | Some Window \<Rightarrow>
                        (case GetNodeWithId E (Nodes w) T (window_Id Window) (Mode (VirtualSpace w)) of
                           None \<Rightarrow> Inr w
                         | Some Node \<Rightarrow> Inr (FullscreenZoomNode T Node w)))))"

text \<open>
  The body of \<open>ToggleWindowParentZoom\<close> once \<open>Node\<close> and its parent are found:
  \<^verbatim>\<open>
  if (Node->Parent->Zoom == Node) {
      ResizeWindowToRegionSize(Node);
      Node->Parent->Zoom = NULL;
  } else {
      if (VirtualSpace->Tree->Zoom == Node) {
          VirtualSpace->Tree->Zoom = NULL;
      }
      if (Node->Parent->Zoom) {
          ResizeWindowToRegionSize(Node->Parent->Zoom);
      }
      Node->Parent->Zoom = Node;
      ResizeWindowToExternalRegionSize(Node, Node->Parent->Region);
  }
  \<close>
\<close>

definition ParentZoomNode :: "addr \<Rightarrow> addr \<Rightarrow> addr \<Rightarrow> world \<Rightarrow> world" where
  "ParentZoomNode T Node P w =
     (if Zoom (Nodes w P) = Some Node
      then set_Zoom P None (ResizeWindowToRegionSize Node w)
      else
        (let w1 = (if Zoom (Nodes w T) = Some Node then set_Zoom T None w else w);
             w2 = (case Zoom (Nodes w1 P) of
                     None \<Rightarrow> w1
                   | Some Z \<Rightarrow> ResizeWindowToRegionSize Z w1);
             w3 = set_Zoom P (Some Node) w2
         in ResizeWindowToExternalRegionSize Node (Region (Nodes w3 P)) w3))"

definition ToggleWindowParentZoom :: "ext \<Rightarrow> world \<Rightarrow> error + world" where
  "ToggleWindowParentZoom E w =
     (case AXLibActiveSpace E of
        None \<Rightarrow> Inl AssertionFailed
      | Some Space \<Rightarrow>
          if space_Type Space \<noteq> kCGSSpaceUser then Inr w
          else
            (case Tree (VirtualSpace w) of
               None \<Rightarrow> Inr w
             | Some T \<Rightarrow>
                 if Mode (VirtualSpace w) \<noteq> Virtual_Space_Bsp then Inr w
                 else
                   (case GetFocusedWindow E of
                      None \<Rightarrow> Inr w
                    | Some Window \<Rightarrow>
                        (case GetNodeWithId E (Nodes w) T (window_Id Window) (Mode (VirtualSpace w)) of
                           None \<Rightarrow> Inr w
                         | Some Node \<Rightarrow>
                             (case Parent (Nodes w Node) of
                                None \<Rightarrow> Inr w
                              | Some P \<Rightarrow> Inr (ParentZoomNode T Node P w))))))"

text \<open>
  A sequence of the two zoom commands, each in the environment of its moment (focused
  window, active space); a failed assertion ends the sequence.
\<close>

datatype zoom_command = FullscreenZoom ext | ParentZoom ext

fun run_zoom_command :: "zoom_command \<Rightarrow> world \<Rightarrow> error + world" where
  "run_zoom_command (FullscreenZoom E) w = ToggleWindowFullscreenZoom E w"
| "run_zoom_command (ParentZoom E) w = ToggleWindowParentZoom E w"

fun run_zoom_commands :: "zoom_command list \<Rightarrow> world \<Rightarrow> error + world" where
  "run_zoom_commands [] w = Inr w"
| "run_zoom_commands (c # cs) w =
     (case run_zoom_command c w of
        Inl e \<Rightarrow> Inl e
      | Inr w' \<Rightarrow> run_zoom_commands cs w')"

section \<open>RotateWindowTree\<close>

text \<open>
  \<open>RotateWindowTree\<close> rotates the tree of the active workspace, lets the region engine
  assign the regions again and applies them:
  \<^verbatim>\<open>
  RotateBSPTree(VirtualSpace->Tree, Degrees);
  CreateNodeRegionRecursive(VirtualSpace->Tree, false, Space, VirtualSpace);
  ApplyNodeRegion(VirtualSpace->Tree, VirtualSpace->Mode);
  \<close>
  The workspace holds the tree as a value here, as \<open>RotateBSPTree\<close> does. The region
  engine is a parameter, a function of the tree; \<open>Applied\<close> lists the trees handed to
  \<open>ApplyNodeRegion\<close>.
\<close>

record tree_space =
  tree_Mode :: virtual_space_mode
  tree_Tree :: "bsp option"
  Applied :: "bsp list"

definition RotateWindowTree ::
  "ext \<Rightarrow> (bsp \<Rightarrow> bsp) \<Rightarrow> string \<Rightarrow> tree_space \<Rightarrow> error + tree_space" where
  "RotateWindowTree E CreateNodeRegionRecursive Degrees s =
     (case AXLibActiveSpace E of
        None \<Rightarrow> Inl AssertionFailed
      | Some Space \<Rightarrow>
          if space_Type Space \<noteq> kCGSSpaceUser then Inr s
          else
            (case tree_Tree s of
               None \<Rightarrow> Inr s
             | Some t \<Rightarrow>
                 if tree_Mode s \<noteq> Virtual_Space_Bsp then Inr s
                 else
                   (let t' = CreateNodeRegionRecursive (RotateBSPTree t Degrees)
                    in Inr (s\<lparr>tree_Tree := Some t', Applied := Applied s @ [t']\<rparr>))))"

text \<open>
  What the specification says of the region engine, on trees: it computes the regions
  below the root from the region of the root and from the shape, splits and ratios, and
  writes nothing else. \<open>clear_regions\<close> forgets the regions of a tree.
\<close>

fun clear_regions :: "bsp \<Rightarrow> bsp" where
  "clear_regions (Leaf d) = Leaf (d\<lparr>Region := \<lparr>X = 0, Y = 0, Width = 0, Height = 0\<rparr>\<rparr>)"
| "clear_regions (Branch d l r) =
     Branch (d\<lparr>Region := \<lparr>X = 0, Y = 0, Width = 0, Height = 0\<rparr>\<rparr>)
       (clear_regions l) (clear_regions r)"

definition region_engine_tree :: "(bsp \<Rightarrow> bsp) \<Rightarrow> bool" where
  "region_engine_tree engine \<longleftrightarrow>
     (\<forall>t. clear_regions (engine t) = clear_regions t \<and>
          Region (root_data (engine t)) = Region (root_data t)) \<and>
     (\<forall>t t'. clear_regions t = clear_regions t' \<and>
             Region (root_data t) = Region (root_data t') \<longrightarrow> engine t = engine t')"

text \<open>
  An engine of this kind, for the examples: a vertical split gives the left child the
  share \<open>Ratio\<close> of the width, any other split the share \<open>Ratio\<close> of the height (no gap).
\<close>

fun halves :: "node_data \<Rightarrow> region \<Rightarrow> region \<times> region" where
  "halves d R =
     (if Split d = Split_Vertical
      then (R\<lparr>Width := Ratio d * Width R\<rparr>,
            R\<lparr>X := X R + Ratio d * Width R, Width := Width R - Ratio d * Width R\<rparr>)
      else (R\<lparr>Height := Ratio d * Height R\<rparr>,
            R\<lparr>Y := Y R + Ratio d * Height R, Height := Height R - Ratio d * Height R\<rparr>))"

fun regions_from :: "region \<Rightarrow> bsp \<Rightarrow> bsp" where
  "regions_from R (Leaf d) = Leaf (d\<lparr>Region := R\<rparr>)"
| "regions_from R (Branch d l r) =
     Branch (d\<lparr>Region := R\<rparr>)
       (regions_from (fst (halves d R)) l) (regions_from (snd (halves d R)) r)"

definition example_engine :: "bsp \<Rightarrow> bsp" where
  "example_engine t = regions_from (Region (root_data t)) t"

section \<open>AdjustWindowRatio\<close>

text \<open>
  The local variables \<open>Offset\<close> and \<open>Ratio\<close>:
  \<^verbatim>\<open>
  Offset = CVarFloatingPointValue(CVAR_BSP_SPLIT_RATIO);
  if (!(WindowNode == Ancestor->Left || IsNodeInTree(Ancestor->Left, WindowNode))) {
      Offset = -Offset;
  }
  Ratio = Ancestor->Ratio + Offset;
  \<close>
\<close>

definition AdjustWindowRatio_Offset :: "ext \<Rightarrow> heap \<Rightarrow> addr \<Rightarrow> addr \<Rightarrow> real" where
  "AdjustWindowRatio_Offset E h WindowNode Ancestor =
     (let Offset = CVAR_BSP_SPLIT_RATIO E in
      if \<not> (Some WindowNode = Left (h Ancestor) \<or> IsNodeInTree E h (Left (h Ancestor)) WindowNode)
      then - Offset
      else Offset)"

definition AdjustWindowRatio_Ratio :: "ext \<Rightarrow> heap \<Rightarrow> addr \<Rightarrow> addr \<Rightarrow> real" where
  "AdjustWindowRatio_Ratio E h WindowNode Ancestor =
     Ratio (h Ancestor) + AdjustWindowRatio_Offset E h WindowNode Ancestor"

text \<open>
  \<^verbatim>\<open>
  if (Ratio >= 0.1 && Ratio <= 0.9) {
      Ancestor->Ratio = Ratio;
      ResizeNodeRegion(Ancestor, Space, VirtualSpace);
      ApplyNodeRegion(Ancestor, VirtualSpace->Mode);
  }
  \<close>
\<close>

definition ApplyRatio :: "ext \<Rightarrow> addr \<Rightarrow> real \<Rightarrow> world \<Rightarrow> world" where
  "ApplyRatio E Ancestor r w =
     (if r \<ge> 1 / 10 \<and> r \<le> 9 / 10
      then
        (let h1 = (Nodes w)(Ancestor := (Nodes w Ancestor)\<lparr>Ratio := r\<rparr>);
             w1 = add_call (Call_ResizeNodeRegion Ancestor)
                    (w\<lparr>Nodes := ResizeNodeRegion E Ancestor h1\<rparr>)
         in add_call (Call_ApplyNodeRegion Ancestor) w1)
      else w)"

definition AdjustWindowRatio :: "ext \<Rightarrow> string \<Rightarrow> world \<Rightarrow> error + world" where
  "AdjustWindowRatio E Direction w =
     (case GetWindowByID E (CVAR_BSP_INSERTION_POINT w) of
        None \<Rightarrow> Inr w
      | Some Window \<Rightarrow>
          (case AXLibActiveSpace E of
             None \<Rightarrow> Inl AssertionFailed
           | Some Space \<Rightarrow>
               if space_Type Space \<noteq> kCGSSpaceUser then Inr w
               else
                 (case Tree (VirtualSpace w) of
                    None \<Rightarrow> Inr w
                  | Some T \<Rightarrow>
                      if Mode (VirtualSpace w) \<noteq> Virtual_Space_Bsp \<or> IsLeafNode E (Nodes w) T
                      then Inr w
                      else
                        (case GetNodeWithId E (Nodes w) T (window_Id Window) (Mode (VirtualSpace w)) of
                           None \<Rightarrow> Inr w
                         | Some WindowNode \<Rightarrow>
                             (case FindTargetWindow E w Space T Window WindowNode Direction of
                                Inl e \<Rightarrow> Inl e
                              | Inr None \<Rightarrow> Inr w
                              | Inr (Some ClosestWindow) \<Rightarrow>
                                  (case GetNodeWithId E (Nodes w) T (window_Id ClosestWindow)
                                          (Mode (VirtualSpace w)) of
                                     None \<Rightarrow> Inl AssertionFailed
                                   | Some ClosestNode \<Rightarrow>
                                       (case GetLowestCommonAncestor E (Nodes w) WindowNode ClosestNode of
                                          None \<Rightarrow> Inr w
                                        | Some Ancestor \<Rightarrow>
                                            Inr (ApplyRatio E Ancestor
                                                   (AdjustWindowRatio_Ratio E (Nodes w) WindowNode Ancestor)
                                                   w))))))))"

text \<open>
  The candidate ratio in the words of C2: the step is subtracted when the source is the
  left child of the ancestor or lies below it, and added otherwise.
\<close>

definition Ratio_described :: "ext \<Rightarrow> heap \<Rightarrow> addr \<Rightarrow> addr \<Rightarrow> real" where
  "Ratio_described E h WindowNode Ancestor =
     (if Some WindowNode = Left (h Ancestor) \<or> IsNodeInTree E h (Left (h Ancestor)) WindowNode
      then Ratio (h Ancestor) - CVAR_BSP_SPLIT_RATIO E
      else Ratio (h Ancestor) + CVAR_BSP_SPLIT_RATIO E)"

text \<open>
  What the specification says of the region engine, as far as ratios go: it assigns
  regions from the ratios and leaves every ratio as it is.
\<close>

definition region_engine_frame :: "ext \<Rightarrow> bool" where
  "region_engine_frame E \<longleftrightarrow>
     (\<forall>n h a. Ratio (ResizeNodeRegion E n h a) = Ratio (h a))"

definition ratios_in_bounds :: "heap \<Rightarrow> bool" where
  "ratios_in_bounds h \<longleftrightarrow> (\<forall>a. 1 / 10 \<le> Ratio (h a) \<and> Ratio (h a) \<le> 9 / 10)"

section \<open>NormalizeWindowRect and SendWindowToDesktop\<close>

text \<open>
  \<^verbatim>\<open>
  float OffsetX = Position.x - SourceBounds.origin.x;
  float OffsetY = Position.y - SourceBounds.origin.y;
  float ScaleX = SourceBounds.size.width / DestinationBounds.size.width;
  Result.origin.x = ScaleX > 1.0f ? OffsetX / ScaleX + DestinationBounds.origin.x
                                  : OffsetX + DestinationBounds.origin.x;
  float ScaleY = SourceBounds.size.height / DestinationBounds.size.height;
  Result.origin.y = ScaleY > 1.0f ? OffsetY / ScaleY + DestinationBounds.origin.y
                                  : OffsetY + DestinationBounds.origin.y;
  Result.size.width = Size.width / ScaleX;
  Result.size.height = Size.height / ScaleY;
  \<close>
  A quotient by zero is an infinity or not a number in C and has no real value: the
  result of the model is \<open>None\<close> there. The divisors are the size of the destination
  display and the two scales.
\<close>

definition NormalizeWindowRect :: "ext \<Rightarrow> macos_window \<Rightarrow> string \<Rightarrow> string \<Rightarrow> CGRect option" where
  "NormalizeWindowRect E Window SourceMonitor DestinationMonitor =
     (let SourceBounds = AXLibGetDisplayBounds E SourceMonitor;
          DestinationBounds = AXLibGetDisplayBounds E DestinationMonitor;
          Position = AXLibGetWindowPosition E Window;
          Size = AXLibGetWindowSize E Window;
          OffsetX = fst Position - origin_x SourceBounds;
          OffsetY = snd Position - origin_y SourceBounds
      in if size_width DestinationBounds = 0 \<or> size_height DestinationBounds = 0 then None
         else
           (let ScaleX = size_width SourceBounds / size_width DestinationBounds;
                ScaleY = size_height SourceBounds / size_height DestinationBounds
            in if ScaleX = 0 \<or> ScaleY = 0 then None
               else Some
                 \<lparr>origin_x = (if ScaleX > 1 then OffsetX / ScaleX + origin_x DestinationBounds
                               else OffsetX + origin_x DestinationBounds),
                  origin_y = (if ScaleY > 1 then OffsetY / ScaleY + origin_y DestinationBounds
                               else OffsetY + origin_y DestinationBounds),
                  size_width = fst Size / ScaleX,
                  size_height = snd Size / ScaleY\<rparr>))"

text \<open>
  The rectangle of C8 in the words of the specification, from the bounds \<open>Sb\<close> and \<open>Db\<close>
  and the position and size of the window.
\<close>

definition Normalized_described :: "CGRect \<Rightarrow> CGRect \<Rightarrow> real \<times> real \<Rightarrow> real \<times> real \<Rightarrow> CGRect" where
  "Normalized_described Sb Db p s =
     (let offsetX = fst p - origin_x Sb;
          offsetY = snd p - origin_y Sb;
          scaleX = size_width Sb / size_width Db;
          scaleY = size_height Sb / size_height Db
      in \<lparr>origin_x = (if scaleX > 1 then offsetX / scaleX + origin_x Db else offsetX + origin_x Db),
          origin_y = (if scaleY > 1 then offsetY / scaleY + origin_y Db else offsetY + origin_y Db),
          size_width = fst s / scaleX,
          size_height = snd s / scaleY\<rparr>)"

text \<open>
  \<^verbatim>\<open>
  AXLibSetWindowPosition(Window->Ref, NormalizedWindow.origin.x, NormalizedWindow.origin.y);
  AXLibSetWindowSize(Window->Ref, NormalizedWindow.size.width, NormalizedWindow.size.height);
  \<close>
\<close>

definition SetNormalizedWindow :: "macos_window \<Rightarrow> CGRect option \<Rightarrow> world \<Rightarrow> world" where
  "SetNormalizedWindow Window NormalizedWindow w =
     add_call (AXLibSetWindowSize (window_Id Window)
                 (map_option (\<lambda>N. (size_width N, size_height N)) NormalizedWindow))
       (add_call (AXLibSetWindowPosition (window_Id Window)
                    (map_option (\<lambda>N. (origin_x N, origin_y N)) NormalizedWindow)) w)"

text \<open>
  The loop that gives the focus to the first other window of the source space.
\<close>

definition RetainFocus :: "ext \<Rightarrow> macos_window \<Rightarrow> macos_space \<Rightarrow> world \<Rightarrow> error + world" where
  "RetainFocus E Window Space w =
     (case find (\<lambda>i. i \<noteq> window_Id Window) (GetAllVisibleWindowsForSpace3 E Space False True) of
        None \<Rightarrow> Inr w
      | Some i \<Rightarrow>
          (case GetWindowByID E i of
             None \<Rightarrow> Inl NullDereference
           | Some Other \<Rightarrow>
               Inr (add_call (AXLibSetFocusedApplication (window_Id Other))
                      (add_call (AXLibSetFocusedWindow (window_Id Other)) w))))"

text \<open>
  The source space of \<open>SendWindowToDesktop\<close> and the value of \<open>Success\<close> after it is
  resolved: the only space of the window for \<open>prev\<close> and \<open>next\<close> (\<open>Success\<close> is still
  false), the active space otherwise (\<open>Success\<close> is the result of \<open>AXLibActiveSpace\<close>).
\<close>

definition SourceSpace :: "ext \<Rightarrow> macos_window \<Rightarrow> string \<Rightarrow> error + (macos_space \<times> bool)" where
  "SourceSpace E Window Op =
     (if Op = ''prev'' \<or> Op = ''next'' then
        (case AXLibSpacesForWindow E (window_Id Window) of
           [Space] \<Rightarrow> Inr (Space, False)
         | _ \<Rightarrow> Inl AssertionFailed)
      else
        (case AXLibActiveSpace E of
           None \<Rightarrow> Inl AssertionFailed
         | Some Space \<Rightarrow> Inr (Space, True)))"

definition DestinationDesktop :: "ext \<Rightarrow> string \<Rightarrow> 32 word \<Rightarrow> 32 word option" where
  "DestinationDesktop E Op SourceDesktopId =
     (if Op = ''prev'' then Some (SourceDesktopId - 1)
      else if Op = ''next'' then Some (SourceDesktopId + 1)
      else sscanf_d E Op)"

text \<open>The part of \<open>SendWindowToDesktop\<close> after the destination is known to exist.\<close>

definition MoveToDesktop ::
  "ext \<Rightarrow> macos_window \<Rightarrow> macos_space \<Rightarrow> 32 word \<Rightarrow> 32 word \<Rightarrow> CGSSpaceID \<Rightarrow> world
     \<Rightarrow> error + (bool \<times> world)" where
  "MoveToDesktop E Window Space SourceMonitor DestinationMonitor DestinationSpaceId w =
     (let ValidWindow = (\<not> window_Float Window \<and> IsWindowValid E Window);
          w1 = (if ValidWindow then UntileWindowFromSpace E Window Space w else w);
          w2 = add_call (AXLibSpaceMoveWindow DestinationSpaceId (window_Id Window)) w1
      in case RetainFocus E Window Space w2 of
           Inl e \<Rightarrow> Inl e
         | Inr w3 \<Rightarrow>
             if DestinationMonitor = SourceMonitor then Inr (True, w3)
             else
               (case AXLibGetDisplayIdentifierFromSpace E (space_Id Space) of
                  None \<Rightarrow> Inl AssertionFailed
                | Some SourceMonitorRef \<Rightarrow>
                    (case AXLibGetDisplayIdentifierFromSpace E DestinationSpaceId of
                       None \<Rightarrow> Inl AssertionFailed
                     | Some DestinationMonitorRef \<Rightarrow>
                         (let w4 = SetNormalizedWindow Window
                                     (NormalizeWindowRect E Window SourceMonitorRef DestinationMonitorRef) w3;
                              DestinationMonitorActiveSpace =
                                AXLibActiveSpaceOfDisplay E DestinationMonitorRef
                          in if \<not> ValidWindow then Inr (True, w4)
                             else if space_Id DestinationMonitorActiveSpace = DestinationSpaceId
                             then Inr (True, TileWindowOnSpace E Window DestinationMonitorActiveSpace w4)
                             else Inr (True, w4)))))"

definition SendWindowToDesktop :: "ext \<Rightarrow> macos_window \<Rightarrow> string \<Rightarrow> world \<Rightarrow> error + (bool \<times> world)" where
  "SendWindowToDesktop E Window Op w =
     (case SourceSpace E Window Op of
        Inl e \<Rightarrow> Inl e
      | Inr (Space, Success) \<Rightarrow>
          if space_Type Space \<noteq> kCGSSpaceUser then Inr (Success, w)
          else
            (case AXLibCGSSpaceIDToDesktopID E (space_Id Space) of
               None \<Rightarrow> Inl AssertionFailed
             | Some (SourceMonitor, SourceDesktopId) \<Rightarrow>
                 (case DestinationDesktop E Op SourceDesktopId of
                    None \<Rightarrow>
                      Inr (False, add_call (c_log_WARN ''invalid destination desktop specified'') w)
                  | Some DestinationDesktopId \<Rightarrow>
                      if SourceDesktopId = DestinationDesktopId
                      then Inr (False,
                             add_call (c_log_WARN
                               ''invalid destination desktop specified, source desktop and destination are the same'') w)
                      else
                        (case AXLibCGSSpaceIDFromDesktopID E DestinationDesktopId of
                           None \<Rightarrow>
                             Inr (False,
                               add_call (c_log_WARN
                                 ''invalid destination desktop specified, desktop does not exist'') w)
                         | Some (DestinationMonitor, DestinationSpaceId) \<Rightarrow>
                             MoveToDesktop E Window Space SourceMonitor DestinationMonitor
                               DestinationSpaceId w))))"

section \<open>A workspace with two windows\<close>

text \<open>
  Two windows side by side on the only desktop of one display: the root at address 10
  splits vertically at 1/2, its children at the addresses 11 and 12 hold the windows 1 and 2.
  The helpers of node.h answer as they do on this tree.
\<close>

definition leaf_node :: "32 word \<Rightarrow> addr option \<Rightarrow> region \<Rightarrow> node" where
  "leaf_node i p R =
     \<lparr>WindowId = i, Split = Split_None, Ratio = 1 / 2, Region = R,
      Parent = p, Left = None, Right = None, Zoom = None\<rparr>"

definition example_heap :: heap where
  "example_heap =
     (\<lambda>a. leaf_node 0 None \<lparr>X = 0, Y = 0, Width = 0, Height = 0\<rparr>)
       (10 := \<lparr>WindowId = 0, Split = Split_Vertical, Ratio = 1 / 2,
               Region = \<lparr>X = 0, Y = 0, Width = 1000, Height = 800\<rparr>,
               Parent = None, Left = Some 11, Right = Some 12, Zoom = None\<rparr>,
        11 := leaf_node 1 (Some 10) \<lparr>X = 0, Y = 0, Width = 500, Height = 800\<rparr>,
        12 := leaf_node 2 (Some 10) \<lparr>X = 500, Y = 0, Width = 500, Height = 800\<rparr>)"

definition example_world :: world where
  "example_world =
     \<lparr>Nodes = example_heap,
      VirtualSpace = \<lparr>Mode = Virtual_Space_Bsp, Tree = Some 10\<rparr>,
      Cursor = (0, 0),
      CVAR_BSP_INSERTION_POINT = 1,
      Calls = []\<rparr>"

definition user_space :: macos_space where
  "user_space = \<lparr>space_Id = 1, space_Type = kCGSSpaceUser\<rparr>"

definition example_ext :: ext where
  "example_ext =
     \<lparr>GetWindowByID =
        (\<lambda>i. if i = 1 \<or> i = 2 then Some \<lparr>window_Id = i, window_Float = False\<rparr> else None),
      GetFocusedWindow = Some \<lparr>window_Id = 1, window_Float = False\<rparr>,
      AXLibActiveSpace = Some user_space,
      GetAllVisibleWindowsForSpace = (\<lambda>s. [1, 2]),
      GetAllVisibleWindowsForSpace3 = (\<lambda>s a b. [1, 2]),
      AXLibGetDisplayIdentifierFromSpace = (\<lambda>s. Some ''display''),
      AXLibGetDisplayBounds =
        (\<lambda>d. \<lparr>origin_x = 0, origin_y = 0, size_width = 1000, size_height = 800\<rparr>),
      AXLibActiveSpaceOfDisplay = (\<lambda>d. user_space),
      AXLibSpacesForWindow = (\<lambda>i. [user_space]),
      AXLibCGSSpaceIDToDesktopID = (\<lambda>s. if s = 1 then Some (0, 1) else None),
      AXLibCGSSpaceIDFromDesktopID = (\<lambda>d. if d = 1 then Some (0, 1) else None),
      AXLibGetWindowPosition = (\<lambda>W. (0, 0)),
      AXLibGetWindowSize = (\<lambda>W. (500, 800)),
      IsWindowValid = (\<lambda>W. True),
      sscanf_d = (\<lambda>s. if s = ''1'' then Some 1 else if s = ''2'' then Some 2 else None),
      CVAR_BSP_SPLIT_RATIO = 1 / 10,
      CVAR_MOUSE_FOLLOWS_FOCUS = 0,
      CVAR_WINDOW_FOCUS_CYCLE = ''none'',
      GetNodeWithId = (\<lambda>h T i m. if i = 1 then Some 11 else if i = 2 then Some 12 else None),
      GetPrevLeafNode = (\<lambda>h n. if n = 12 then Some 11 else None),
      GetNextLeafNode = (\<lambda>h n. if n = 11 then Some 12 else None),
      GetFirstLeafNode = (\<lambda>h T. Some 11),
      GetLastLeafNode = (\<lambda>h T. Some 12),
      GetBiggestLeafNode = (\<lambda>h T. Some 11),
      GetLowestCommonAncestor = (\<lambda>h a b. Some 10),
      IsNodeInTree = (\<lambda>h t n. False),
      IsLeafNode = (\<lambda>h n. Left (h n) = None \<and> Right (h n) = None),
      ResizeNodeRegion = (\<lambda>n h. h),
      UntileWindowFromSpace = (\<lambda>W S w. w),
      TileWindowOnSpace = (\<lambda>W S w. w)\<rparr>"

text \<open>
  The same two windows in monocle mode: a list of the nodes 11 and 12, the window of the
  last node at the insertion point.
\<close>

definition monocle_heap :: heap where
  "monocle_heap =
     (\<lambda>a. leaf_node 0 None \<lparr>X = 0, Y = 0, Width = 0, Height = 0\<rparr>)
       (11 := (leaf_node 1 None \<lparr>X = 0, Y = 0, Width = 1000, Height = 800\<rparr>)\<lparr>Right := Some 12\<rparr>,
        12 := (leaf_node 2 None \<lparr>X = 0, Y = 0, Width = 1000, Height = 800\<rparr>)\<lparr>Left := Some 11\<rparr>)"

definition monocle_world :: world where
  "monocle_world =
     \<lparr>Nodes = monocle_heap,
      VirtualSpace = \<lparr>Mode = Virtual_Space_Monocle, Tree = Some 11\<rparr>,
      Cursor = (0, 0),
      CVAR_BSP_INSERTION_POINT = 2,
      Calls = []\<rparr>"

text \<open>
  Two displays: the source is 2000 wide, the destination to its right is 1000 wide, both
  are 800 high; the window is at (600, 100) and measures 500 by 400.
\<close>

definition two_displays_ext :: ext where
  "two_displays_ext =
     example_ext
       \<lparr>AXLibGetDisplayBounds :=
          (\<lambda>d. if d = ''source''
                then \<lparr>origin_x = 0, origin_y = 0, size_width = 2000, size_height = 800\<rparr>
                else \<lparr>origin_x = 2000, origin_y = 0, size_width = 1000, size_height = 800\<rparr>),
        AXLibGetWindowPosition := (\<lambda>W. (600, 100)),
        AXLibGetWindowSize := (\<lambda>W. (500, 400))\<rparr>"

text \<open>
  Three windows: the root at address 10 splits horizontally, its left child 11 holds
  window 1, its right child 12 splits vertically into the leaves 13 and 14 with the
  windows 2 and 3. Window 2 has the focus.
\<close>

definition three_heap :: heap where
  "three_heap =
     (\<lambda>a. leaf_node 0 None \<lparr>X = 0, Y = 0, Width = 0, Height = 0\<rparr>)
       (10 := \<lparr>WindowId = 0, Split = Split_Horizontal, Ratio = 1 / 2,
               Region = \<lparr>X = 0, Y = 0, Width = 1000, Height = 800\<rparr>,
               Parent = None, Left = Some 11, Right = Some 12, Zoom = None\<rparr>,
        11 := leaf_node 1 (Some 10) \<lparr>X = 0, Y = 0, Width = 1000, Height = 400\<rparr>,
        12 := \<lparr>WindowId = 0, Split = Split_Vertical, Ratio = 1 / 2,
               Region = \<lparr>X = 0, Y = 400, Width = 1000, Height = 400\<rparr>,
               Parent = Some 10, Left = Some 13, Right = Some 14, Zoom = None\<rparr>,
        13 := leaf_node 2 (Some 12) \<lparr>X = 0, Y = 400, Width = 500, Height = 400\<rparr>,
        14 := leaf_node 3 (Some 12) \<lparr>X = 500, Y = 400, Width = 500, Height = 400\<rparr>)"

definition three_world :: world where
  "three_world =
     \<lparr>Nodes = three_heap,
      VirtualSpace = \<lparr>Mode = Virtual_Space_Bsp, Tree = Some 10\<rparr>,
      Cursor = (0, 0),
      CVAR_BSP_INSERTION_POINT = 2,
      Calls = []\<rparr>"

definition three_ext :: ext where
  "three_ext =
     example_ext
       \<lparr>GetWindowByID :=
          (\<lambda>i. if i = 1 \<or> i = 2 \<or> i = 3 then Some \<lparr>window_Id = i, window_Float = False\<rparr>
                else None),
        GetFocusedWindow := Some \<lparr>window_Id = 2, window_Float = False\<rparr>,
        GetNodeWithId :=
          (\<lambda>h T i m. if i = 1 then Some 11 else if i = 2 then Some 13
                      else if i = 3 then Some 14 else None)\<rparr>"

text \<open>The same environment with a fullscreen space as the active space.\<close>

definition fullscreen_ext :: ext where
  "fullscreen_ext =
     example_ext\<lparr>AXLibActiveSpace := Some \<lparr>space_Id = 7, space_Type = kCGSSpaceFullscreen\<rparr>\<rparr>"

text \<open>The workspace of \<open>two_windows\<close>, for \<open>RotateWindowTree\<close>.\<close>

definition rotate_example_space :: tree_space where
  "rotate_example_space =
     \<lparr>tree_Mode = Virtual_Space_Bsp, tree_Tree = Some two_windows, Applied = []\<rparr>"

section \<open>The situations the results speak of\<close>

text \<open>
  \<open>AdjustWindowRatio\<close> resolves the source node \<open>S\<close>, the target node \<open>Tn\<close> and their
  lowest common ancestor \<open>A\<close>: the window at the insertion point exists, the active space
  is a user space in BSP mode whose root is no leaf, and the lookups and the search
  succeed.
\<close>

definition AdjustWindowRatio_resolves ::
  "ext \<Rightarrow> string \<Rightarrow> world \<Rightarrow> addr \<Rightarrow> addr \<Rightarrow> addr \<Rightarrow> bool" where
  "AdjustWindowRatio_resolves E Direction w S Tn A \<longleftrightarrow>
     (\<exists>Window Space T ClosestWindow.
        GetWindowByID E (CVAR_BSP_INSERTION_POINT w) = Some Window \<and>
        AXLibActiveSpace E = Some Space \<and> space_Type Space = kCGSSpaceUser \<and>
        Tree (VirtualSpace w) = Some T \<and> Mode (VirtualSpace w) = Virtual_Space_Bsp \<and>
        \<not> IsLeafNode E (Nodes w) T \<and>
        GetNodeWithId E (Nodes w) T (window_Id Window) Virtual_Space_Bsp = Some S \<and>
        FindTargetWindow E w Space T Window S Direction = Inr (Some ClosestWindow) \<and>
        GetNodeWithId E (Nodes w) T (window_Id ClosestWindow) Virtual_Space_Bsp = Some Tn \<and>
        GetLowestCommonAncestor E (Nodes w) S Tn = Some A)"

text \<open>
  \<open>SwapWindow\<close> in BSP mode finds a target window: \<open>S\<close> is the node of the window at the
  insertion point, \<open>Tn\<close> the node of the window that the search returns.
\<close>

definition SwapWindow_finds :: "ext \<Rightarrow> string \<Rightarrow> world \<Rightarrow> addr \<Rightarrow> addr \<Rightarrow> bool" where
  "SwapWindow_finds E Direction w S Tn \<longleftrightarrow>
     (\<exists>Window Space T ClosestWindow.
        GetWindowByID E (CVAR_BSP_INSERTION_POINT w) = Some Window \<and>
        AXLibActiveSpace E = Some Space \<and> space_Type Space = kCGSSpaceUser \<and>
        Tree (VirtualSpace w) = Some T \<and> Mode (VirtualSpace w) = Virtual_Space_Bsp \<and>
        GetNodeWithId E (Nodes w) T (window_Id Window) Virtual_Space_Bsp = Some S \<and>
        FindTargetWindow E w Space T Window S Direction = Inr (Some ClosestWindow) \<and>
        GetNodeWithId E (Nodes w) T (window_Id ClosestWindow) Virtual_Space_Bsp = Some Tn)"

text \<open>
  \<open>SwapWindow\<close> and \<open>WarpWindow\<close> reach their monocle branch with the list node \<open>S\<close> of
  the window at the insertion point; \<open>T\<close> is the head of the list.
\<close>

definition Monocle_reached :: "ext \<Rightarrow> world \<Rightarrow> addr \<Rightarrow> addr \<Rightarrow> bool" where
  "Monocle_reached E w T S \<longleftrightarrow>
     (\<exists>Window Space.
        GetWindowByID E (CVAR_BSP_INSERTION_POINT w) = Some Window \<and>
        AXLibActiveSpace E = Some Space \<and> space_Type Space = kCGSSpaceUser \<and>
        Tree (VirtualSpace w) = Some T \<and> Mode (VirtualSpace w) = Virtual_Space_Monocle \<and>
        GetNodeWithId E (Nodes w) T (window_Id Window) Virtual_Space_Monocle = Some S)"

text \<open>A workspace with no zoomed node: every zoom pointer is NULL.\<close>

definition no_zoomed_node :: "heap \<Rightarrow> bool" where
  "no_zoomed_node h \<longleftrightarrow> (\<forall>a. Zoom (h a) = None)"

text \<open>
  Zoom exclusivity as C6 states it, for the root \<open>T\<close> of the workspace: no node is the
  fullscreen zoom of the tree and the zoom of its own parent at once.
\<close>

definition zoom_exclusive_described :: "addr \<Rightarrow> heap \<Rightarrow> bool" where
  "zoom_exclusive_described T h \<longleftrightarrow>
     (\<forall>n P. Parent (h n) = Some P \<longrightarrow> \<not> (Zoom (h T) = Some n \<and> Zoom (h P) = Some n))"

text \<open>
  The same for the nodes whose parent is not the root. For a child of the root,
  \<open>Tree->Zoom\<close> and \<open>Node->Parent->Zoom\<close> are one field.
\<close>

definition zoom_exclusive :: "addr \<Rightarrow> heap \<Rightarrow> bool" where
  "zoom_exclusive T h \<longleftrightarrow>
     (\<forall>n P. Parent (h n) = Some P \<and> P \<noteq> T \<longrightarrow>
        \<not> (Zoom (h T) = Some n \<and> Zoom (h P) = Some n))"

text \<open>
  The conditions of C7 on the destination desktop, once the source desktop is known: the
  operand cannot be parsed, or names the source desktop, or names a desktop that does
  not exist.
\<close>

definition bad_destination :: "ext \<Rightarrow> string \<Rightarrow> 32 word \<Rightarrow> bool" where
  "bad_destination E Op SourceDesktopId \<longleftrightarrow>
     (case DestinationDesktop E Op SourceDesktopId of
        None \<Rightarrow> True
      | Some DestinationDesktopId \<Rightarrow>
          DestinationDesktopId = SourceDesktopId \<or>
          AXLibCGSSpaceIDFromDesktopID E DestinationDesktopId = None)"

section \<open>Single precision: results\<close>

lemma floor_log2_binade:
  assumes "2 powr of_int k \<le> x" "x < 2 powr (of_int k + 1)"
  shows "\<lfloor>log 2 x\<rfloor> = k"
proof -
  have pos: "0 < x" using assms(1) powr_gt_zero[of 2 "of_int k"] by linarith
  have "of_int k \<le> log 2 x" using assms(1) pos by (simp add: le_log_iff)
  moreover have "log 2 x < of_int k + 1" using assms(2) pos by (simp add: log_less_iff)
  ultimately show ?thesis by (simp add: floor_eq_iff)
qed

lemma float32_binade:
  assumes "2 powr of_int k \<le> \<bar>x\<bar>" "\<bar>x\<bar> < 2 powr (of_int k + 1)" "- 126 \<le> k" "k \<le> 126"
  shows "float32 x = of_int (round_even (x / 2 powr (of_int k - 23))) * 2 powr (of_int k - 23)"
proof -
  have "0 < \<bar>x\<bar>" using assms(1) powr_gt_zero[of 2 "of_int k"] by linarith
  then have nz: "x \<noteq> 0" by simp
  have "2 powr (of_int k + 1) \<le> 2 powr (127 :: real)"
    using assms(4) by (intro powr_mono) simp_all
  also have "\<dots> = 2 ^ 127" by (simp add: powr_numeral)
  finally have "\<bar>x\<bar> < 2 ^ 127" using assms(2) by linarith
  then have "\<bar>x\<bar> < 2 ^ 128 - 2 ^ 103" by simp
  moreover have "\<lfloor>log 2 \<bar>x\<bar>\<rfloor> = k" using assms(1,2) by (rule floor_log2_binade)
  ultimately show ?thesis using nz assms(3) by (simp add: float32_def Let_def max_def)
qed

text \<open>Between 1/2 and 1 the floats are the multiples of \<open>2 ^ - 24\<close>.\<close>

lemma float32_half_to_one:
  assumes "1 / 2 \<le> x" "x < 1"
  shows "float32 x = of_int (round_even (x * 16777216)) / 16777216"
proof -
  have a: "2 powr of_int (- 1) \<le> \<bar>x\<bar>" using assms by (simp add: powr_minus_divide)
  have b: "\<bar>x\<bar> < 2 powr (of_int (- 1) + 1)" using assms by simp
  have u: "2 powr (- 24) = (1 / 16777216 :: real)"
    by (simp add: powr_minus_divide powr_numeral)
  from float32_binade[OF a b] show ?thesis by (simp add: u)
qed

text \<open>Between 1/4 and 1/2 the floats are the multiples of \<open>2 ^ - 25\<close>.\<close>

lemma float32_quarter_to_half:
  assumes "1 / 4 \<le> x" "x < 1 / 2"
  shows "float32 x = of_int (round_even (x * 33554432)) / 33554432"
proof -
  have a: "2 powr of_int (- 2) \<le> \<bar>x\<bar>" using assms by (simp add: powr_minus_divide powr_numeral)
  have "2 powr (of_int (- 2) + 1) = (1 / 2 :: real)"
    by (simp add: powr_minus_divide)
  then have b: "\<bar>x\<bar> < 2 powr (of_int (- 2) + 1)" using assms by simp
  have u: "2 powr (- 25) = (1 / 33554432 :: real)"
    by (simp add: powr_minus_divide powr_numeral)
  from float32_binade[OF a b] show ?thesis by (simp add: u)
qed

lemma round_even_of_int: "round_even (of_int n) = n"
  by (simp add: round_even_def)

text \<open>A positive multiple of \<open>2 ^ - 24\<close> below 1 is a float.\<close>

lemma float32_dyadic:
  fixes M :: int
  assumes "0 < M" "M < 2 ^ 24"
  shows "float32 (of_int M / 2 ^ 24) = of_int M / 2 ^ 24"
proof -
  define x :: real where "x = of_int M / 2 ^ 24"
  define k where "k = \<lfloor>log 2 x\<rfloor>"
  have M1: "1 \<le> (of_int M :: real)" using assms(1) by simp
  have M2: "(of_int M :: real) < 2 ^ 24"
    using assms(2) by (metis of_int_less_numeral_power_cancel_iff)
  have x0: "0 < x" using M1 by (simp add: x_def)
  have x1: "x < 1" using M2 by (simp add: x_def)
  have xl: "1 / 2 ^ 24 \<le> x" using M1 by (simp add: x_def field_simps)
  have "log 2 x < 0" using x0 x1 by simp
  then have "k < 0" by (simp add: k_def floor_less_iff)
  have "2 powr (- 24) \<le> x" using xl by (simp add: powr_minus_divide powr_numeral)
  then have "- 24 \<le> log 2 x" using x0 by (simp add: le_log_iff)
  then have "- 24 \<le> k" by (simp add: k_def le_floor_iff)
  define j where "j = nat (- 1 - k)"
  have j: "real j = - 1 - of_int k" using \<open>k < 0\<close> by (simp add: j_def)
  define u :: real where "u = 2 powr (of_int k - 23)"
  have u0: "0 < u" by (simp add: u_def)
  have "u * 2 ^ j = 2 powr (of_int k - 23) * 2 powr (real j)"
    by (simp add: u_def powr_realpow)
  also have "\<dots> = 2 powr (- 24)" unfolding j by (simp flip: powr_add)
  also have "\<dots> = 1 / 2 ^ 24" by (simp add: powr_minus_divide powr_numeral)
  finally have "u * 2 ^ j * 2 ^ 24 = 1" by simp
  then have "x = of_int M * 2 ^ j * u" by (simp add: x_def field_simps)
  then have q: "x / u = of_int (M * 2 ^ j)" using u0 by simp
  have r: "of_int (round_even (x / u)) * u = x"
    unfolding q round_even_of_int using q u0 by (simp add: field_simps)
  have "\<bar>x\<bar> < 2 ^ 128 - 2 ^ 103" using x0 x1 by simp
  moreover have "max k (- 126) = k" using \<open>- 24 \<le> k\<close> by simp
  ultimately have "float32 x = x"
    using x0 r by (simp add: float32_def Let_def k_def[symmetric] u_def[symmetric])
  then show ?thesis by (simp add: x_def)
qed

text \<open>The complement of a float between 1/2 and 1 is a float: nothing is rounded.\<close>

lemma float32_complement_exact:
  assumes "float32 r = r" "1 / 2 \<le> r" "r \<le> 1"
  shows "float32 (1 - r) = 1 - r"
proof (cases "r = 1")
  case True
  then show ?thesis by (simp add: float32_def)
next
  case False
  then have r1: "r < 1" using assms(3) by simp
  define K where "K = round_even (r * 16777216)"
  have r: "r = of_int K / 16777216"
    using float32_half_to_one[OF assms(2) r1] assms(1) by (simp add: K_def)
  have "of_int K < (16777216 :: real)" using r1 r by simp
  then have K1: "K < 16777216" by linarith
  have "(0 :: real) < of_int K" using assms(2) r by simp
  then have K0: "0 < K" by linarith
  have f: "float32 (of_int (16777216 - K) / 2 ^ 24) = of_int (16777216 - K) / 2 ^ 24"
    using K0 K1 by (intro float32_dyadic) simp_all
  have "r * 16777216 = of_int K" using r by simp
  then have e: "1 - r = of_int (16777216 - K) / 2 ^ 24" by (simp add: field_simps)
  show ?thesis unfolding e by (rule f)
qed

lemma float32_quarter: "float32 (1 / 4) = 1 / 4"
  by (subst float32_quarter_to_half) (simp_all add: round_even_def Let_def)

lemma float32_half: "float32 (1 / 2) = 1 / 2"
  by (subst float32_half_to_one) (simp_all add: round_even_def Let_def)

lemma float32_three_quarters: "float32 (3 / 4) = 3 / 4"
  by (subst float32_half_to_one) (simp_all add: round_even_def Let_def)

section \<open>Rotation: results\<close>

lemma RotateNode_180: "RotateNode ''180'' d = d\<lparr>Ratio := float32 (1 - Ratio d)\<rparr>"
  by (simp add: RotateNode_def RotateSwaps_def)

lemma RotateSwaps_180: "RotateSwaps ''180'' d"
  by (simp add: RotateSwaps_def)

lemma RotateSwaps_90: "RotateSwaps ''90'' d \<longleftrightarrow> Split d = Split_Vertical"
  by (simp add: RotateSwaps_def)

lemma RotateNode_90:
  "RotateNode ''90'' d =
     (if Split d = Split_Vertical
      then d\<lparr>Ratio := float32 (1 - Ratio d), Split := Split_Horizontal\<rparr>
      else d\<lparr>Split := toggle_split (Split d)\<rparr>)"
  by (cases "Split d") (simp_all add: RotateNode_def RotateSwaps_def)

text \<open>
  C1, as stated, fails: on two windows side by side (vertical root, ratio 1/4) a
  rotation by 90 degrees leaves the root with ratio 3/4, not 1/4.
\<close>

theorem C1_rotate90_ratio_counterexample:
  "Ratio (root_data (RotateBSPTree two_windows ''90'')) = 3 / 4 \<and>
   Ratio (root_data (Rotate90_described two_windows)) = 1 / 4 \<and>
   RotateBSPTree two_windows ''90'' \<noteq> Rotate90_described two_windows"
  by (simp add: two_windows_def RotateNode_90 RotateSwaps_90 float32_three_quarters)

text \<open>
  C1, amended: a rotation by 90 degrees swaps the children of exactly the nodes whose
  split is vertical and replaces the ratio by 1 - ratio at exactly those nodes; it
  toggles horizontal and vertical at every node. A rotation by 180 degrees swaps the
  children and replaces the ratio by 1 - ratio at every node and keeps every split.
  The difference 1 - ratio is the one the code computes, a \<open>float\<close>.
\<close>

theorem C1_rotate_amended:
  "RotateBSPTree t ''90'' = Rotate90_swapping t \<and>
   RotateBSPTree t ''180'' = Rotate180_swapping t"
proof
  show "RotateBSPTree t ''90'' = Rotate90_swapping t"
    by (induction t) (simp_all add: RotateNode_90 RotateSwaps_90)
  show "RotateBSPTree t ''180'' = Rotate180_swapping t"
    by (induction t) (simp_all add: RotateNode_180 RotateSwaps_180)
qed

lemma RotateSwaps_Region [simp]: "RotateSwaps D (d\<lparr>Region := R\<rparr>) = RotateSwaps D d"
  by (simp add: RotateSwaps_def)

lemma RotateNode_Region: "RotateNode D (d\<lparr>Region := R\<rparr>) = (RotateNode D d)\<lparr>Region := R\<rparr>"
  by (simp add: RotateNode_def Let_def)

lemma Region_RotateNode [simp]: "Region (RotateNode D d) = Region d"
  by (simp add: RotateNode_def Let_def)

lemma clear_regions_Rotate:
  "clear_regions (RotateBSPTree t D) = RotateBSPTree (clear_regions t) D"
  by (induction t) (simp_all add: RotateNode_Region)

lemma root_region_Rotate [simp]:
  "Region (root_data (RotateBSPTree t D)) = Region (root_data t)"
  by (cases t) simp_all

lemma Rotate180_twice:
  "RotateBSPTree (RotateBSPTree t ''180'') ''180'' = complemented_twice t"
  by (induction t) (simp_all add: RotateNode_180 RotateSwaps_180)

lemma complemented_twice_exact: "complements_exact t \<Longrightarrow> complemented_twice t = t"
  by (induction t) (simp_all add: exact_complement_def)

lemma complements_exact_clear [simp]:
  "complements_exact (clear_regions t) = complements_exact t"
  by (induction t) simp_all

lemma engine_Rotate180_twice:
  assumes "region_engine_tree engine" and "complements_exact t"
  shows "engine (RotateBSPTree (engine (RotateBSPTree t ''180'')) ''180'') = engine t"
proof -
  let ?u = "RotateBSPTree (engine (RotateBSPTree t ''180'')) ''180''"
  from assms(1) have keep: "\<And>t. clear_regions (engine t) = clear_regions t"
    "\<And>t. Region (root_data (engine t)) = Region (root_data t)"
    and det: "\<And>t t'. clear_regions t = clear_regions t' \<Longrightarrow>
                 Region (root_data t) = Region (root_data t') \<Longrightarrow> engine t = engine t'"
    unfolding region_engine_tree_def by blast+
  have "clear_regions ?u = RotateBSPTree (clear_regions (RotateBSPTree t ''180'')) ''180''"
    by (simp add: clear_regions_Rotate keep)
  also have "\<dots> = RotateBSPTree (RotateBSPTree (clear_regions t) ''180'') ''180''"
    by (simp add: clear_regions_Rotate)
  also have "\<dots> = clear_regions t"
    using assms(2) by (simp add: Rotate180_twice complemented_twice_exact)
  finally have 1: "clear_regions ?u = clear_regions t" .
  have 2: "Region (root_data ?u) = Region (root_data t)"
    by (simp add: keep)
  from det[OF 1 2] show ?thesis .
qed

lemma RotateWindowTree_180_twice:
  assumes "region_engine_tree engine" and "complements_exact t"
    and "AXLibActiveSpace E = Some Space" "space_Type Space = kCGSSpaceUser"
    and "tree_Mode s = Virtual_Space_Bsp" "tree_Tree s = Some t"
  shows "\<exists>s1 s2. RotateWindowTree E engine ''180'' s = Inr s1 \<and>
           RotateWindowTree E engine ''180'' s1 = Inr s2 \<and>
           tree_Tree s2 = Some (engine t) \<and> tree_Mode s2 = tree_Mode s"
  using assms(3-) engine_Rotate180_twice[OF assms(1,2)]
  by (simp add: RotateWindowTree_def Let_def)

lemma clear_regions_from: "clear_regions (regions_from R t) = clear_regions t"
  by (induction t arbitrary: R) simp_all

lemma root_region_from [simp]: "Region (root_data (regions_from R t)) = R"
  by (cases t) simp_all

lemma regions_from_cong:
  "clear_regions t = clear_regions t' \<Longrightarrow> regions_from R t = regions_from R t'"
proof (induction t arbitrary: t' R)
  case (Leaf d)
  then obtain d' where t': "t' = Leaf d'" by (cases t') simp_all
  with Leaf have "d\<lparr>Region := \<lparr>X = 0, Y = 0, Width = 0, Height = 0\<rparr>\<rparr> =
                  d'\<lparr>Region := \<lparr>X = 0, Y = 0, Width = 0, Height = 0\<rparr>\<rparr>" by simp
  then have "d\<lparr>Region := R\<rparr> = d'\<lparr>Region := R\<rparr>"
    by (cases d, cases d') simp
  with t' show ?case by simp
next
  case (Branch d l r)
  then obtain d' l' r' where t': "t' = Branch d' l' r'" by (cases t') simp_all
  with Branch.prems have e: "d\<lparr>Region := \<lparr>X = 0, Y = 0, Width = 0, Height = 0\<rparr>\<rparr> =
                  d'\<lparr>Region := \<lparr>X = 0, Y = 0, Width = 0, Height = 0\<rparr>\<rparr>"
    and l: "clear_regions l = clear_regions l'" and r: "clear_regions r = clear_regions r'"
    by simp_all
  from e have d: "d\<lparr>Region := R\<rparr> = d'\<lparr>Region := R\<rparr>" "Split d = Split d'" "Ratio d = Ratio d'"
    by (cases d, cases d', simp)+
  then have h: "halves d R = halves d' R" by simp
  show ?case using Branch.IH(1)[OF l] Branch.IH(2)[OF r] d(1) h by (simp add: t')
qed

lemma example_engine_ok: "region_engine_tree example_engine"
  unfolding region_engine_tree_def example_engine_def
  by (auto simp: clear_regions_from dest: regions_from_cong)


lemma root_ratio_Rotate180:
  "Ratio (root_data (RotateBSPTree t ''180'')) = float32 (1 - Ratio (root_data t))"
  by (cases t) (simp_all add: RotateNode_180 RotateSwaps_180)

lemma two_windows_exact: "complements_exact two_windows"
  by (simp add: two_windows_def exact_complement_def
        float32_quarter float32_half float32_three_quarters)

text \<open>
  C4, as stated, fails: the ratio is a \<open>float\<close>, and the two complements are rounded.
  On two windows whose root has the ratio \<open>0.4f = 13421773 / 2 ^ 25\<close> (the float
  nearest to 0.4) the first rotation by 180 degrees stores \<open>10066330 / 2 ^ 24\<close>: the
  exact complement \<open>20132659 / 2 ^ 25\<close> lies midway between two floats. The second
  rotation stores \<open>6710886 / 2 ^ 24\<close>, about 0.39999997616, and not the ratio the tree
  had.
\<close>

theorem C4_rotate180_twice_counterexample:
  "float32 (4 / 10) = 13421773 / 33554432 \<and>
   Ratio (root_data narrow_left) = 13421773 / 33554432 \<and>
   Ratio (root_data (RotateBSPTree narrow_left ''180'')) = 10066330 / 16777216 \<and>
   Ratio (root_data (RotateBSPTree (RotateBSPTree narrow_left ''180'') ''180'')) =
     6710886 / 16777216 \<and>
   RotateBSPTree (RotateBSPTree narrow_left ''180'') ''180'' \<noteq> narrow_left"
proof -
  have a: "float32 (4 / 10) = 13421773 / 33554432"
    by (subst float32_quarter_to_half) (simp_all add: round_even_def Let_def)
  have b: "float32 (1 - 13421773 / 33554432) = 10066330 / 16777216"
    by (subst float32_half_to_one) (simp_all add: round_even_def Let_def)
  have c: "float32 (1 - 10066330 / 16777216) = 6710886 / 16777216"
    by (subst float32_quarter_to_half) (simp_all add: round_even_def Let_def)
  have 0: "Ratio (root_data narrow_left) = 13421773 / 33554432"
    by (simp add: narrow_left_def)
  have 1: "Ratio (root_data (RotateBSPTree narrow_left ''180'')) = 10066330 / 16777216"
    by (simp only: root_ratio_Rotate180 0 b)
  have 2: "Ratio (root_data (RotateBSPTree (RotateBSPTree narrow_left ''180'') ''180'')) =
             6710886 / 16777216"
    by (simp only: root_ratio_Rotate180 0 b c)
  have "Ratio (root_data (RotateBSPTree (RotateBSPTree narrow_left ''180'') ''180'')) \<noteq>
          Ratio (root_data narrow_left)"
    unfolding 0 2 by simp
  then have 3: "RotateBSPTree (RotateBSPTree narrow_left ''180'') ''180'' \<noteq> narrow_left"
    by auto
  from a 0 1 2 3 show ?thesis by blast
qed

text \<open>
  C4, amended: two rotations by 180 degrees give back, at every node, the same children
  in the same order, the same split, window and region, and the ratio complemented twice
  with the rounding of the code. The ratio is the same as before where the ratio and its
  complement are floats, as for every float from 1/2 to 1. On a tree that has only such
  ratios the two rotations give back the tree, and two runs of \<open>RotateWindowTree\<close> on a
  BSP workspace leave the tree with the regions that the region engine assigns to the
  tree as it was before the rotations.
\<close>

theorem C4_rotate180_twice_amended:
  "RotateBSPTree (RotateBSPTree t ''180'') ''180'' = complemented_twice t \<and>
   (float32 r = r \<and> 1 / 2 \<le> r \<and> r \<le> 1 \<longrightarrow> exact_complement r) \<and>
   (complements_exact t \<longrightarrow>
      RotateBSPTree (RotateBSPTree t ''180'') ''180'' = t \<and>
      (region_engine_tree engine \<and>
       AXLibActiveSpace E = Some Space \<and> space_Type Space = kCGSSpaceUser \<and>
       tree_Mode s = Virtual_Space_Bsp \<and> tree_Tree s = Some t \<longrightarrow>
         (\<exists>s1 s2. RotateWindowTree E engine ''180'' s = Inr s1 \<and>
            RotateWindowTree E engine ''180'' s1 = Inr s2 \<and>
            tree_Tree s2 = Some (engine t) \<and> tree_Mode s2 = tree_Mode s)))"
proof (intro conjI impI)
  show "RotateBSPTree (RotateBSPTree t ''180'') ''180'' = complemented_twice t"
    by (rule Rotate180_twice)
next
  assume "float32 r = r \<and> 1 / 2 \<le> r \<and> r \<le> 1"
  then show "exact_complement r"
    by (simp add: exact_complement_def float32_complement_exact)
next
  assume "complements_exact t"
  then show "RotateBSPTree (RotateBSPTree t ''180'') ''180'' = t"
    by (simp add: Rotate180_twice complemented_twice_exact)
next
  assume "complements_exact t"
    and "region_engine_tree engine \<and>
       AXLibActiveSpace E = Some Space \<and> space_Type Space = kCGSSpaceUser \<and>
       tree_Mode s = Virtual_Space_Bsp \<and> tree_Tree s = Some t"
  then show "\<exists>s1 s2. RotateWindowTree E engine ''180'' s = Inr s1 \<and>
            RotateWindowTree E engine ''180'' s1 = Inr s2 \<and>
            tree_Tree s2 = Some (engine t) \<and> tree_Mode s2 = tree_Mode s"
    using RotateWindowTree_180_twice by blast
qed

theorem C4_rotate180_twice_amended_witness:
  "float32 (3 / 4) = 3 / 4 \<and> (1 / 2 :: real) \<le> 3 / 4 \<and> (3 / 4 :: real) \<le> 1 \<and>
   exact_complement (3 / 4) \<and>
   complements_exact two_windows \<and>
   region_engine_tree example_engine \<and>
   AXLibActiveSpace example_ext = Some user_space \<and> space_Type user_space = kCGSSpaceUser \<and>
   tree_Mode rotate_example_space = Virtual_Space_Bsp \<and>
   tree_Tree rotate_example_space = Some two_windows \<and>
   RotateBSPTree (RotateBSPTree two_windows ''180'') ''180'' = two_windows \<and>
   (\<exists>s1 s2. RotateWindowTree example_ext example_engine ''180'' rotate_example_space = Inr s1 \<and>
      RotateWindowTree example_ext example_engine ''180'' s1 = Inr s2 \<and>
      tree_Tree s2 = Some (example_engine two_windows))"
proof -
  have h: "AXLibActiveSpace example_ext = Some user_space" "space_Type user_space = kCGSSpaceUser"
    "tree_Mode rotate_example_space = Virtual_Space_Bsp"
    "tree_Tree rotate_example_space = Some two_windows"
    by (simp_all add: example_ext_def user_space_def rotate_example_space_def)
  have n: "(1 / 2 :: real) \<le> 3 / 4" "(3 / 4 :: real) \<le> 1" by simp_all
  from C4_rotate180_twice_amended[of two_windows "3 / 4" example_engine example_ext user_space
      rotate_example_space]
    example_engine_ok two_windows_exact float32_three_quarters h n
  show ?thesis by blast
qed
section \<open>GetWindowDistance: results\<close>

lemma DirectionFromString_simps:
  "DirectionFromString ''north'' = Dir_North"
  "DirectionFromString ''east'' = Dir_East"
  "DirectionFromString ''south'' = Dir_South"
  "DirectionFromString ''west'' = Dir_West"
  by (simp_all add: DirectionFromString_def)

text \<open>
  C9: for the direction north the distance is the sentinel \<open>0xFFFFFFFF\<close> when the delta
  of the ordinates is not negative, and otherwise the length of the delta divided by
  \<open>cos (\<alpha> / 2)\<close> with \<open>\<alpha> = - pi / 2 - atan2\<close>; east rejects a delta of the abscissae
  that is not positive and takes \<open>\<alpha> = - atan2\<close>; south rejects a delta of the ordinates
  that is not positive and takes \<open>\<alpha> = pi / 2 - atan2\<close>; west rejects a delta of the
  abscissae that is not negative and takes \<open>\<alpha> = pi - |atan2|\<close>. With \<open>Wrap\<close> the same
  holds of the centers that \<open>WrapMonitorEdge\<close> returns.
\<close>

theorem C9_GetWindowDistance:
  "GetWindowDistance E Space X1 Y1 X2 Y2 ''north'' False =
     Inr (if Y2 - Y1 \<ge> 0 then 0xFFFFFFFF
          else sqrt ((X2 - X1)\<^sup>2 + (Y2 - Y1)\<^sup>2) /
               cos ((- (pi / 2) - atan2 (Y2 - Y1) (X2 - X1)) / 2)) \<and>
   GetWindowDistance E Space X1 Y1 X2 Y2 ''east'' False =
     Inr (if X2 - X1 \<le> 0 then 0xFFFFFFFF
          else sqrt ((X2 - X1)\<^sup>2 + (Y2 - Y1)\<^sup>2) /
               cos ((- atan2 (Y2 - Y1) (X2 - X1)) / 2)) \<and>
   GetWindowDistance E Space X1 Y1 X2 Y2 ''south'' False =
     Inr (if Y2 - Y1 \<le> 0 then 0xFFFFFFFF
          else sqrt ((X2 - X1)\<^sup>2 + (Y2 - Y1)\<^sup>2) /
               cos ((pi / 2 - atan2 (Y2 - Y1) (X2 - X1)) / 2)) \<and>
   GetWindowDistance E Space X1 Y1 X2 Y2 ''west'' False =
     Inr (if X2 - X1 \<ge> 0 then 0xFFFFFFFF
          else sqrt ((X2 - X1)\<^sup>2 + (Y2 - Y1)\<^sup>2) /
               cos ((pi - \<bar>atan2 (Y2 - Y1) (X2 - X1)\<bar>) / 2)) \<and>
   GetWindowDistance E Space X1 Y1 X2 Y2 Op True =
     (case WrapMonitorEdge E Space (DirectionFromString Op) (X1, X2, Y1, Y2) of
        Inl e \<Rightarrow> Inl e
      | Inr (X1', X2', Y1', Y2') \<Rightarrow> GetWindowDistance E Space X1' Y1' X2' Y2' Op False)"
  by (simp add: GetWindowDistance_def DirectedDistance_def DirectionFromString_simps hypot_def Let_def
        split: sum.split prod.split)

subsection \<open>The quotient is defined\<close>

text \<open>
  Where a candidate passes the test of its direction, the angle is less than a right
  angle away from the axis, so the cosine of its half is positive and at most 1: the
  quotient is a division by a positive number and is at least the distance.
\<close>

lemma atan2_neg_ordinate:
  assumes "b < 0"
  shows "- pi < atan2 b a \<and> atan2 b a < 0"
proof -
  have l: "- (pi / 2) < arctan (b / a)" and u: "arctan (b / a) < pi / 2"
    by (rule arctan_lbound, rule arctan_ubound)
  consider "a > 0" | "a < 0" | "a = 0" by linarith
  then show ?thesis
  proof cases
    case 1
    then have e: "atan2 b a = arctan (b / a)" by (simp add: atan2_def)
    from 1 assms have "b / a < 0" by (simp add: divide_neg_pos)
    then have "arctan (b / a) < 0" by (simp add: arctan_less_zero_iff)
    with l pi_gt_zero show ?thesis unfolding e by linarith
  next
    case 2
    with assms have e: "atan2 b a = arctan (b / a) - pi" by (simp add: atan2_def)
    from 2 assms have "0 < b / a" by (simp add: divide_neg_neg)
    then have "0 < arctan (b / a)" by (simp add: zero_less_arctan_iff)
    with u pi_gt_zero show ?thesis unfolding e by linarith
  next
    case 3
    with assms have e: "atan2 b a = - (pi / 2)" by (simp add: atan2_def)
    from pi_gt_zero show ?thesis unfolding e by linarith
  qed
qed

lemma atan2_pos_ordinate:
  assumes "0 < b"
  shows "0 < atan2 b a \<and> atan2 b a < pi"
proof -
  have l: "- (pi / 2) < arctan (b / a)" and u: "arctan (b / a) < pi / 2"
    by (rule arctan_lbound, rule arctan_ubound)
  consider "a > 0" | "a < 0" | "a = 0" by linarith
  then show ?thesis
  proof cases
    case 1
    then have e: "atan2 b a = arctan (b / a)" by (simp add: atan2_def)
    from 1 assms have "0 < b / a" by simp
    then have "0 < arctan (b / a)" by (simp add: zero_less_arctan_iff)
    with u pi_gt_zero show ?thesis unfolding e by linarith
  next
    case 2
    with assms have e: "atan2 b a = arctan (b / a) + pi" by (simp add: atan2_def)
    from 2 assms have "b / a < 0" by (simp add: divide_pos_neg)
    then have "arctan (b / a) < 0" by (simp add: arctan_less_zero_iff)
    with l pi_gt_zero show ?thesis unfolding e by linarith
  next
    case 3
    with assms have e: "atan2 b a = pi / 2" by (simp add: atan2_def)
    from pi_gt_zero show ?thesis unfolding e by linarith
  qed
qed

lemma atan2_pos_abscissa:
  assumes "0 < a"
  shows "- (pi / 2) < atan2 b a \<and> atan2 b a < pi / 2"
proof -
  from assms have e: "atan2 b a = arctan (b / a)" by (simp add: atan2_def)
  show ?thesis unfolding e using arctan_lbound[of "b / a"] arctan_ubound[of "b / a"] by blast
qed

lemma atan2_neg_abscissa:
  assumes "a < 0"
  shows "pi / 2 < \<bar>atan2 b a\<bar> \<and> \<bar>atan2 b a\<bar> \<le> pi"
proof (cases "0 \<le> b")
  case True
  with assms have e: "atan2 b a = arctan (b / a) + pi" by (simp add: atan2_def)
  from True assms have "b / a \<le> 0" by (simp add: divide_nonneg_neg)
  then have "arctan (b / a) \<le> 0" by (simp add: arctan_le_zero_iff)
  with arctan_lbound[of "b / a"] pi_gt_zero show ?thesis unfolding e by linarith
next
  case False
  with assms have e: "atan2 b a = arctan (b / a) - pi" by (simp add: atan2_def)
  from False assms have "0 < b / a" by (simp add: divide_neg_neg)
  then have "0 < arctan (b / a)" by (simp add: zero_less_arctan_iff)
  with arctan_ubound[of "b / a"] pi_gt_zero show ?thesis unfolding e by linarith
qed

lemma cos_half_pos:
  assumes "- pi < t" "t < pi"
  shows "0 < cos (t / 2)"
  using assms by (intro cos_gt_zero_pi) simp_all

text \<open>The divisor of a candidate that is not rejected is positive.\<close>

lemma accepted_divisor_positive:
  "dy < 0 \<Longrightarrow> 0 < cos ((- (pi / 2) - atan2 dy dx) / 2)"
  "0 < dx \<Longrightarrow> 0 < cos ((0 - atan2 dy dx) / 2)"
  "0 < dy \<Longrightarrow> 0 < cos ((pi / 2 - atan2 dy dx) / 2)"
  "dx < 0 \<Longrightarrow> 0 < cos ((pi - \<bar>atan2 dy dx\<bar>) / 2)"
proof -
  have p: "0 < pi" by (rule pi_gt_zero)
  show "dy < 0 \<Longrightarrow> 0 < cos ((- (pi / 2) - atan2 dy dx) / 2)"
    using atan2_neg_ordinate[of dy dx] p by (intro cos_half_pos) linarith+
  show "0 < dx \<Longrightarrow> 0 < cos ((0 - atan2 dy dx) / 2)"
    using atan2_pos_abscissa[of dx dy] p by (intro cos_half_pos) linarith+
  show "0 < dy \<Longrightarrow> 0 < cos ((pi / 2 - atan2 dy dx) / 2)"
    using atan2_pos_ordinate[of dy dx] p by (intro cos_half_pos) linarith+
  show "dx < 0 \<Longrightarrow> 0 < cos ((pi - \<bar>atan2 dy dx\<bar>) / 2)"
    using atan2_neg_abscissa[of dx dy] p by (intro cos_half_pos) linarith+
qed

lemma accepted_distance_ge:
  assumes "0 < c" "c \<le> 1"
  shows "hypot dx dy \<le> hypot dx dy / c"
proof -
  have "0 \<le> hypot dx dy" by (simp add: hypot_def)
  then have "hypot dx dy * c \<le> hypot dx dy"
    using assms(2) by (simp add: mult_left_le)
  then show ?thesis using assms(1) by (simp add: le_divide_eq)
qed

section \<open>NormalizeWindowRect: results\<close>

text \<open>
  C8: on displays of non-zero width and height, \<open>NormalizeWindowRect\<close> returns the
  rectangle of the specification: the offset from the source display is divided by the
  scale only when the scale exceeds 1, the width and the height are always divided by it.
\<close>

theorem C8_NormalizeWindowRect:
  assumes "size_width (AXLibGetDisplayBounds E S) \<noteq> 0"
    and "size_height (AXLibGetDisplayBounds E S) \<noteq> 0"
    and "size_width (AXLibGetDisplayBounds E D) \<noteq> 0"
    and "size_height (AXLibGetDisplayBounds E D) \<noteq> 0"
  shows "NormalizeWindowRect E Window S D =
           Some (Normalized_described (AXLibGetDisplayBounds E S) (AXLibGetDisplayBounds E D)
                   (AXLibGetWindowPosition E Window) (AXLibGetWindowSize E Window))"
  using assms by (simp add: NormalizeWindowRect_def Normalized_described_def Let_def)

theorem C8_NormalizeWindowRect_witness:
  "size_width (AXLibGetDisplayBounds two_displays_ext ''source'') \<noteq> 0 \<and>
   size_height (AXLibGetDisplayBounds two_displays_ext ''source'') \<noteq> 0 \<and>
   size_width (AXLibGetDisplayBounds two_displays_ext ''destination'') \<noteq> 0 \<and>
   size_height (AXLibGetDisplayBounds two_displays_ext ''destination'') \<noteq> 0 \<and>
   NormalizeWindowRect two_displays_ext \<lparr>window_Id = 1, window_Float = False\<rparr> ''source'' ''destination'' =
     Some \<lparr>origin_x = 2300, origin_y = 100, size_width = 250, size_height = 400\<rparr>"
proof -
  have h: "size_width (AXLibGetDisplayBounds two_displays_ext ''source'') \<noteq> 0"
    "size_height (AXLibGetDisplayBounds two_displays_ext ''source'') \<noteq> 0"
    "size_width (AXLibGetDisplayBounds two_displays_ext ''destination'') \<noteq> 0"
    "size_height (AXLibGetDisplayBounds two_displays_ext ''destination'') \<noteq> 0"
    by (simp_all add: two_displays_ext_def)
  have "Normalized_described (AXLibGetDisplayBounds two_displays_ext ''source'')
          (AXLibGetDisplayBounds two_displays_ext ''destination'')
          (AXLibGetWindowPosition two_displays_ext \<lparr>window_Id = 1, window_Float = False\<rparr>) (AXLibGetWindowSize two_displays_ext \<lparr>window_Id = 1, window_Float = False\<rparr>) =
        \<lparr>origin_x = 2300, origin_y = 100, size_width = 250, size_height = 400\<rparr>"
    by (simp add: two_displays_ext_def Normalized_described_def Let_def)
  with C8_NormalizeWindowRect[OF h, of "\<lparr>window_Id = 1, window_Float = False\<rparr>"] h show ?thesis by simp
qed

section \<open>AdjustWindowRatio: results\<close>

lemma AdjustWindowRatio_resolved:
  assumes "AdjustWindowRatio_resolves E Direction w S Tn A"
  shows "AdjustWindowRatio E Direction w =
           Inr (ApplyRatio E A (AdjustWindowRatio_Ratio E (Nodes w) S A) w)"
  using assms by (auto simp: AdjustWindowRatio_resolves_def AdjustWindowRatio_def)

lemma example_resolves:
  "AdjustWindowRatio_resolves example_ext ''next'' example_world 11 12 10"
  unfolding AdjustWindowRatio_resolves_def
  apply (rule exI[of _ "\<lparr>window_Id = 1, window_Float = False\<rparr>"])
  apply (rule exI[of _ user_space])
  apply (rule exI[of _ 10])
  apply (rule exI[of _ "\<lparr>window_Id = 2, window_Float = False\<rparr>"])
  apply (simp add: example_ext_def example_world_def example_heap_def user_space_def leaf_node_def
      FindTargetWindow_def FindWindowUndirected_def WindowOfNode_def)
  done

text \<open>
  C2, as stated, fails: on two windows side by side with ratio 1/2 and a step of 1/10,
  the source is the left child of the ancestor and the candidate ratio is 6/10, where the
  statement gives 4/10.
\<close>

theorem C2_counterexample:
  "AdjustWindowRatio_resolves example_ext ''next'' example_world 11 12 10 \<and>
   Left (Nodes example_world 10) = Some 11 \<and>
   Ratio (Nodes example_world 10) = 1 / 2 \<and> CVAR_BSP_SPLIT_RATIO example_ext = 1 / 10 \<and>
   AdjustWindowRatio_Ratio example_ext (Nodes example_world) 11 10 = 6 / 10 \<and>
   Ratio_described example_ext (Nodes example_world) 11 10 = 4 / 10 \<and>
   AdjustWindowRatio example_ext ''next'' example_world =
     Inr (ApplyRatio example_ext 10 (6 / 10) example_world) \<and>
   Ratio (Nodes (ApplyRatio example_ext 10 (6 / 10) example_world) 10) = 6 / 10"
proof -
  have l: "Left (Nodes example_world 10) = Some 11" "Ratio (Nodes example_world 10) = 1 / 2"
    "CVAR_BSP_SPLIT_RATIO example_ext = 1 / 10"
    by (simp_all add: example_world_def example_heap_def example_ext_def)
  have c: "AdjustWindowRatio_Ratio example_ext (Nodes example_world) 11 10 = 6 / 10"
    by (simp add: AdjustWindowRatio_Ratio_def AdjustWindowRatio_Offset_def
        example_ext_def example_world_def example_heap_def)
  have d: "Ratio_described example_ext (Nodes example_world) 11 10 = 4 / 10"
    by (simp add: Ratio_described_def example_ext_def example_world_def example_heap_def)
  have r: "AdjustWindowRatio example_ext ''next'' example_world =
             Inr (ApplyRatio example_ext 10 (6 / 10) example_world)"
    using AdjustWindowRatio_resolved[OF example_resolves] c by simp
  have a: "Ratio (Nodes (ApplyRatio example_ext 10 (6 / 10) example_world) 10) = 6 / 10"
    by (simp add: ApplyRatio_def Let_def add_call_def example_ext_def)
  from example_resolves l c d r a show ?thesis by blast
qed

text \<open>
  C2, amended: when \<open>AdjustWindowRatio\<close> resolves a source node \<open>S\<close> and a target node
  with lowest common ancestor \<open>A\<close>, the candidate ratio is the ratio of \<open>A\<close> plus the
  step when \<open>S\<close> is the left child of \<open>A\<close> or lies in its left subtree, and the ratio of
  \<open>A\<close> minus the step otherwise.
\<close>

theorem C2_amended:
  assumes "AdjustWindowRatio_resolves E Direction w S Tn A"
  shows "AdjustWindowRatio_Ratio E (Nodes w) S A =
           (if Some S = Left (Nodes w A) \<or> IsNodeInTree E (Nodes w) (Left (Nodes w A)) S
            then Ratio (Nodes w A) + CVAR_BSP_SPLIT_RATIO E
            else Ratio (Nodes w A) - CVAR_BSP_SPLIT_RATIO E) \<and>
         AdjustWindowRatio E Direction w =
           Inr (ApplyRatio E A (AdjustWindowRatio_Ratio E (Nodes w) S A) w)"
  using AdjustWindowRatio_resolved[OF assms]
  by (simp add: AdjustWindowRatio_Ratio_def AdjustWindowRatio_Offset_def)

lemma example_resolves_right:
  "AdjustWindowRatio_resolves example_ext ''prev''
     (example_world\<lparr>CVAR_BSP_INSERTION_POINT := 2\<rparr>) 12 11 10"
  unfolding AdjustWindowRatio_resolves_def
  apply (rule exI[of _ "\<lparr>window_Id = 2, window_Float = False\<rparr>"])
  apply (rule exI[of _ user_space])
  apply (rule exI[of _ 10])
  apply (rule exI[of _ "\<lparr>window_Id = 1, window_Float = False\<rparr>"])
  apply (simp add: example_ext_def example_world_def example_heap_def user_space_def leaf_node_def
      FindTargetWindow_def FindWindowUndirected_def WindowOfNode_def)
  done

theorem C2_amended_witness:
  "AdjustWindowRatio_resolves example_ext ''next'' example_world 11 12 10 \<and>
   AdjustWindowRatio_Ratio example_ext (Nodes example_world) 11 10 = 1 / 2 + 1 / 10 \<and>
   AdjustWindowRatio example_ext ''next'' example_world =
     Inr (ApplyRatio example_ext 10 (AdjustWindowRatio_Ratio example_ext (Nodes example_world) 11 10)
            example_world) \<and>
   AdjustWindowRatio_resolves example_ext ''prev''
     (example_world\<lparr>CVAR_BSP_INSERTION_POINT := 2\<rparr>) 12 11 10 \<and>
   AdjustWindowRatio_Ratio example_ext
     (Nodes (example_world\<lparr>CVAR_BSP_INSERTION_POINT := 2\<rparr>)) 12 10 = 1 / 2 - 1 / 10"
proof -
  from C2_amended[OF example_resolves]
  have a: "AdjustWindowRatio_Ratio example_ext (Nodes example_world) 11 10 = 1 / 2 + 1 / 10"
    and b: "AdjustWindowRatio example_ext ''next'' example_world =
     Inr (ApplyRatio example_ext 10 (AdjustWindowRatio_Ratio example_ext (Nodes example_world) 11 10)
            example_world)"
    by (simp_all add: example_ext_def example_world_def example_heap_def)
  from C2_amended[OF example_resolves_right]
  have c: "AdjustWindowRatio_Ratio example_ext
     (Nodes (example_world\<lparr>CVAR_BSP_INSERTION_POINT := 2\<rparr>)) 12 10 = 1 / 2 - 1 / 10"
    by (simp add: example_ext_def example_world_def example_heap_def)
  from a b c example_resolves example_resolves_right show ?thesis by blast
qed

lemma frame_Ratio:
  assumes "region_engine_frame E"
  shows "Ratio (ResizeNodeRegion E n h a) = Ratio (h a)"
  using assms unfolding region_engine_frame_def by blast

lemma ApplyRatio_in_range:
  assumes "region_engine_frame E" "1 / 10 \<le> r" "r \<le> 9 / 10"
  shows "Ratio (Nodes (ApplyRatio E A r w) A) = r \<and>
         Calls (ApplyRatio E A r w) = Calls w @ [Call_ResizeNodeRegion A, Call_ApplyNodeRegion A]"
  using assms by (simp add: ApplyRatio_def Let_def add_call_def frame_Ratio)

lemma ApplyRatio_out_of_range:
  assumes "\<not> (1 / 10 \<le> r \<and> r \<le> 9 / 10)"
  shows "ApplyRatio E A r w = w"
  using assms by (auto simp: ApplyRatio_def)

lemma ApplyRatio_bounds:
  assumes "region_engine_frame E" "ratios_in_bounds (Nodes w)"
  shows "ratios_in_bounds (Nodes (ApplyRatio E A r w))"
  using assms
  by (auto simp: ApplyRatio_def Let_def add_call_def frame_Ratio ratios_in_bounds_def)

lemma AdjustWindowRatio_cases:
  assumes "AdjustWindowRatio E Direction w = Inr w'"
  shows "w' = w \<or> (\<exists>A r. w' = ApplyRatio E A r w)"
  using assms
  by (auto simp: AdjustWindowRatio_def split: option.splits if_splits sum.splits)

text \<open>
  C3: when the candidate ratio lies outside [0.1, 0.9] the command returns the workspace
  as it was (the ratio of the ancestor is kept, no call is made); otherwise the ratio of
  the ancestor becomes the candidate and the regions below it are recomputed and applied.
  Every ratio that was within the bounds before the command is within them after it.
  The region engine is assumed to leave the ratios as they are.
\<close>

theorem C3_ratio_bounds:
  assumes "region_engine_frame E"
  shows "(AdjustWindowRatio_resolves E Direction w S Tn A \<longrightarrow>
            (if 1 / 10 \<le> AdjustWindowRatio_Ratio E (Nodes w) S A \<and>
                AdjustWindowRatio_Ratio E (Nodes w) S A \<le> 9 / 10
             then \<exists>w'. AdjustWindowRatio E Direction w = Inr w' \<and>
                    Ratio (Nodes w' A) = AdjustWindowRatio_Ratio E (Nodes w) S A \<and>
                    Calls w' = Calls w @ [Call_ResizeNodeRegion A, Call_ApplyNodeRegion A]
             else AdjustWindowRatio E Direction w = Inr w)) \<and>
         (\<forall>w'. AdjustWindowRatio E Direction w = Inr w' \<and> ratios_in_bounds (Nodes w) \<longrightarrow>
            ratios_in_bounds (Nodes w'))"
proof (intro conjI impI allI)
  assume res: "AdjustWindowRatio_resolves E Direction w S Tn A"
  show "if 1 / 10 \<le> AdjustWindowRatio_Ratio E (Nodes w) S A \<and>
           AdjustWindowRatio_Ratio E (Nodes w) S A \<le> 9 / 10
        then \<exists>w'. AdjustWindowRatio E Direction w = Inr w' \<and>
               Ratio (Nodes w' A) = AdjustWindowRatio_Ratio E (Nodes w) S A \<and>
               Calls w' = Calls w @ [Call_ResizeNodeRegion A, Call_ApplyNodeRegion A]
        else AdjustWindowRatio E Direction w = Inr w"
    using AdjustWindowRatio_resolved[OF res] ApplyRatio_in_range[OF assms]
      ApplyRatio_out_of_range
    by (simp split: if_splits)
next
  fix w'
  assume "AdjustWindowRatio E Direction w = Inr w' \<and> ratios_in_bounds (Nodes w)"
  then show "ratios_in_bounds (Nodes w')"
    using AdjustWindowRatio_cases ApplyRatio_bounds[OF assms] by blast
qed

lemma example_frame: "region_engine_frame example_ext"
  by (simp add: region_engine_frame_def example_ext_def)

lemma example_bounds: "ratios_in_bounds (Nodes example_world)"
  by (simp add: ratios_in_bounds_def example_world_def example_heap_def leaf_node_def)

lemma big_step_resolves:
  "AdjustWindowRatio_resolves (example_ext\<lparr>CVAR_BSP_SPLIT_RATIO := 1 / 2\<rparr>) ''next'' example_world 11 12 10"
  unfolding AdjustWindowRatio_resolves_def
  apply (rule exI[of _ "\<lparr>window_Id = 1, window_Float = False\<rparr>"])
  apply (rule exI[of _ user_space])
  apply (rule exI[of _ 10])
  apply (rule exI[of _ "\<lparr>window_Id = 2, window_Float = False\<rparr>"])
  apply (simp add: example_ext_def example_world_def example_heap_def user_space_def leaf_node_def
      FindTargetWindow_def FindWindowUndirected_def WindowOfNode_def)
  done

lemma big_step_frame: "region_engine_frame (example_ext\<lparr>CVAR_BSP_SPLIT_RATIO := 1 / 2\<rparr>)"
  by (simp add: region_engine_frame_def example_ext_def)

theorem C3_ratio_bounds_witness:
  "region_engine_frame example_ext \<and>
   AdjustWindowRatio_resolves example_ext ''next'' example_world 11 12 10 \<and>
   ratios_in_bounds (Nodes example_world) \<and>
   (\<exists>w'. AdjustWindowRatio example_ext ''next'' example_world = Inr w' \<and>
      Ratio (Nodes w' 10) = 6 / 10 \<and>
      Calls w' = [Call_ResizeNodeRegion 10, Call_ApplyNodeRegion 10] \<and>
      ratios_in_bounds (Nodes w')) \<and>
   AdjustWindowRatio_resolves (example_ext\<lparr>CVAR_BSP_SPLIT_RATIO := 1 / 2\<rparr>) ''next'' example_world 11 12 10 \<and>
   AdjustWindowRatio (example_ext\<lparr>CVAR_BSP_SPLIT_RATIO := 1 / 2\<rparr>) ''next'' example_world =
     Inr example_world"
proof -
  have r: "AdjustWindowRatio_Ratio example_ext (Nodes example_world) 11 10 = 6 / 10"
    by (simp add: AdjustWindowRatio_Ratio_def AdjustWindowRatio_Offset_def
        example_ext_def example_world_def example_heap_def)
  have r2: "AdjustWindowRatio_Ratio (example_ext\<lparr>CVAR_BSP_SPLIT_RATIO := 1 / 2\<rparr>)
              (Nodes example_world) 11 10 = 1"
    by (simp add: AdjustWindowRatio_Ratio_def AdjustWindowRatio_Offset_def
        example_ext_def example_world_def example_heap_def)
  have c: "Calls example_world = []" by (simp add: example_world_def)
  from C3_ratio_bounds[OF example_frame, of "''next''" example_world 11 12 10]
  have a: "\<exists>w'. AdjustWindowRatio example_ext ''next'' example_world = Inr w' \<and>
      Ratio (Nodes w' 10) = 6 / 10 \<and>
      Calls w' = [Call_ResizeNodeRegion 10, Call_ApplyNodeRegion 10] \<and>
      ratios_in_bounds (Nodes w')"
    using example_resolves example_bounds by (auto simp: r c)
  from C3_ratio_bounds[OF big_step_frame, of "''next''" example_world 11 12 10]
  have b: "AdjustWindowRatio (example_ext\<lparr>CVAR_BSP_SPLIT_RATIO := 1 / 2\<rparr>) ''next'' example_world =
     Inr example_world"
    using big_step_resolves by (simp add: r2)
  show ?thesis
    using a b example_frame example_resolves example_bounds big_step_resolves by blast
qed

section \<open>SwapWindow and WarpWindow: results\<close>

lemma SwapNodeIds_at:
  "SwapNodeIds S Tn h a =
     (h a)\<lparr>WindowId := (if a = Tn then WindowId (h S)
                          else if a = S then WindowId (h Tn)
                          else WindowId (h a))\<rparr>"
  by (simp add: SwapNodeIds_def Let_def)

lemma SwapAndResize_Nodes:
  "Nodes (SwapAndResize S Tn w) = SwapNodeIds S Tn (Nodes w)"
  by (simp add: SwapAndResize_def ResizeWindowToRegionSize_def add_call_def)

lemma SwapAndResize_Calls:
  "Calls (SwapAndResize S Tn w) =
     Calls w @ [ResizeWindow (WindowId (Nodes w Tn)) (Region (Nodes w S)),
                ResizeWindow (WindowId (Nodes w S)) (Region (Nodes w Tn))]"
  by (simp add: SwapAndResize_def ResizeWindowToRegionSize_def add_call_def SwapNodeIds_at)

lemma SwapAndResize_rest:
  "VirtualSpace (SwapAndResize S Tn w) = VirtualSpace w"
  "CVAR_BSP_INSERTION_POINT (SwapAndResize S Tn w) = CVAR_BSP_INSERTION_POINT w"
  by (simp_all add: SwapAndResize_def ResizeWindowToRegionSize_def add_call_def)

lemma MouseFollowsFocus_frame:
  "Nodes (MouseFollowsFocus E n w) = Nodes w"
  "Calls (MouseFollowsFocus E n w) = Calls w"
  "VirtualSpace (MouseFollowsFocus E n w) = VirtualSpace w"
  "CVAR_BSP_INSERTION_POINT (MouseFollowsFocus E n w) = CVAR_BSP_INSERTION_POINT w"
  by (simp_all add: MouseFollowsFocus_def CenterMouseInRegion_def)

lemma SwapWindow_found:
  assumes "SwapWindow_finds E Direction w S Tn"
  shows "SwapWindow E Direction w = Inr (MouseFollowsFocus E Tn (SwapAndResize S Tn w))"
  using assms by (auto simp: SwapWindow_finds_def SwapWindow_def)

text \<open>
  C5: in BSP mode, when \<open>SwapWindow\<close> finds a target window, the window ids of the
  source node and of the target node are exchanged and nothing else of the tree changes:
  the links, split, ratio, region and zoom of every node and the workspace are as before;
  the window that moved to the source node is resized to the region of the source node,
  the window that moved to the target node to the region of the target node.
\<close>

theorem C5_SwapWindow_frame:
  assumes "SwapWindow_finds E Direction w S Tn"
  shows "\<exists>w'. SwapWindow E Direction w = Inr w' \<and>
           (\<forall>a. WindowId (Nodes w' a) =
                  (if a = Tn then WindowId (Nodes w S)
                   else if a = S then WindowId (Nodes w Tn)
                   else WindowId (Nodes w a)) \<and>
                Parent (Nodes w' a) = Parent (Nodes w a) \<and>
                Left (Nodes w' a) = Left (Nodes w a) \<and>
                Right (Nodes w' a) = Right (Nodes w a) \<and>
                Split (Nodes w' a) = Split (Nodes w a) \<and>
                Ratio (Nodes w' a) = Ratio (Nodes w a) \<and>
                Region (Nodes w' a) = Region (Nodes w a) \<and>
                Zoom (Nodes w' a) = Zoom (Nodes w a)) \<and>
           VirtualSpace w' = VirtualSpace w \<and>
           Calls w' = Calls w @ [ResizeWindow (WindowId (Nodes w Tn)) (Region (Nodes w S)),
                                ResizeWindow (WindowId (Nodes w S)) (Region (Nodes w Tn))]"
  using SwapWindow_found[OF assms]
  by (simp add: MouseFollowsFocus_frame SwapAndResize_Nodes SwapAndResize_Calls
      SwapAndResize_rest SwapNodeIds_at)

lemma example_swap_finds: "SwapWindow_finds example_ext ''next'' example_world 11 12"
  unfolding SwapWindow_finds_def
  apply (rule exI[of _ "\<lparr>window_Id = 1, window_Float = False\<rparr>"])
  apply (rule exI[of _ user_space])
  apply (rule exI[of _ 10])
  apply (rule exI[of _ "\<lparr>window_Id = 2, window_Float = False\<rparr>"])
  apply (simp add: example_ext_def example_world_def example_heap_def user_space_def leaf_node_def
      FindTargetWindow_def FindWindowUndirected_def WindowOfNode_def)
  done

theorem C5_SwapWindow_frame_witness:
  "SwapWindow_finds example_ext ''next'' example_world 11 12 \<and>
   (\<exists>w'. SwapWindow example_ext ''next'' example_world = Inr w' \<and>
      WindowId (Nodes w' 11) = 2 \<and> WindowId (Nodes w' 12) = 1 \<and>
      Left (Nodes w' 10) = Some 11 \<and> Right (Nodes w' 10) = Some 12 \<and>
      Calls w' = [ResizeWindow 2 \<lparr>X = 0, Y = 0, Width = 500, Height = 800\<rparr>,
                  ResizeWindow 1 \<lparr>X = 500, Y = 0, Width = 500, Height = 800\<rparr>])"
proof -
  have v: "WindowId (Nodes example_world 11) = 1" "WindowId (Nodes example_world 12) = 2"
    "Left (Nodes example_world 10) = Some 11" "Right (Nodes example_world 10) = Some 12"
    "Region (Nodes example_world 11) = \<lparr>X = 0, Y = 0, Width = 500, Height = 800\<rparr>"
    "Region (Nodes example_world 12) = \<lparr>X = 500, Y = 0, Width = 500, Height = 800\<rparr>"
    "Calls example_world = []"
    by (simp_all add: example_world_def example_heap_def leaf_node_def)
  from C5_SwapWindow_frame[OF example_swap_finds]
  obtain w' where w': "SwapWindow example_ext ''next'' example_world = Inr w'"
    and f: "\<forall>a. WindowId (Nodes w' a) =
                  (if a = 12 then WindowId (Nodes example_world 11)
                   else if a = 11 then WindowId (Nodes example_world 12)
                   else WindowId (Nodes example_world a)) \<and>
                Parent (Nodes w' a) = Parent (Nodes example_world a) \<and>
                Left (Nodes w' a) = Left (Nodes example_world a) \<and>
                Right (Nodes w' a) = Right (Nodes example_world a) \<and>
                Split (Nodes w' a) = Split (Nodes example_world a) \<and>
                Ratio (Nodes w' a) = Ratio (Nodes example_world a) \<and>
                Region (Nodes w' a) = Region (Nodes example_world a) \<and>
                Zoom (Nodes w' a) = Zoom (Nodes example_world a)"
    and c: "Calls w' = Calls example_world @
              [ResizeWindow (WindowId (Nodes example_world 12)) (Region (Nodes example_world 11)),
               ResizeWindow (WindowId (Nodes example_world 11)) (Region (Nodes example_world 12))]"
    by blast
  have "WindowId (Nodes w' 11) = 2" "WindowId (Nodes w' 12) = 1"
    "Left (Nodes w' 10) = Some 11" "Right (Nodes w' 10) = Some 12"
    using f[rule_format, of 11] f[rule_format, of 12] f[rule_format, of 10] by (simp_all add: v)
  moreover have "Calls w' = [ResizeWindow 2 \<lparr>X = 0, Y = 0, Width = 500, Height = 800\<rparr>,
                  ResizeWindow 1 \<lparr>X = 500, Y = 0, Width = 500, Height = 800\<rparr>]"
    using c by (simp add: v)
  ultimately show ?thesis using w' example_swap_finds by blast
qed

lemma Monocle_ClosestNode_focus_cycle:
  "Monocle_ClosestNode (E\<lparr>CVAR_WINDOW_FOCUS_CYCLE := m\<rparr>) w T S Direction =
   Monocle_ClosestNode E w T S Direction"
  by (simp add: Monocle_ClosestNode_def cong: option.case_cong)

lemma Monocle_Swap_focus_cycle:
  "Monocle_Swap (E\<lparr>CVAR_WINDOW_FOCUS_CYCLE := m\<rparr>) w T S Direction = Monocle_Swap E w T S Direction"
  by (simp add: Monocle_Swap_def Monocle_ClosestNode_focus_cycle)

lemma SwapWindow_monocle:
  assumes "Monocle_reached E w T S"
  shows "SwapWindow (E\<lparr>CVAR_WINDOW_FOCUS_CYCLE := m\<rparr>) Direction w = Inr (Monocle_Swap E w T S Direction)"
  using assms by (auto simp: Monocle_reached_def SwapWindow_def Monocle_Swap_focus_cycle)

lemma WarpWindow_monocle:
  assumes "Monocle_reached E w T S"
  shows "WarpWindow (E\<lparr>CVAR_WINDOW_FOCUS_CYCLE := m\<rparr>) Direction w = Inr (Monocle_Swap E w T S Direction)"
  using assms by (auto simp: Monocle_reached_def WarpWindow_def Monocle_Swap_focus_cycle)

text \<open>
  C10: in monocle mode \<open>SwapWindow\<close> and \<open>WarpWindow\<close> do the same whatever the
  focus-cycle mode is: with \<open>east\<close> or \<open>next\<close> on a node without successor the chosen
  target is the first leaf, with \<open>west\<close> or \<open>prev\<close> on a node without predecessor it is
  the last leaf, and a chosen target is swapped with the source unless it is the source
  node itself.
\<close>

theorem C10_monocle_wrap:
  assumes "Monocle_reached E w T S"
  shows "SwapWindow (E\<lparr>CVAR_WINDOW_FOCUS_CYCLE := m\<rparr>) Direction w =
           Inr (Monocle_Swap E w T S Direction) \<and>
         WarpWindow (E\<lparr>CVAR_WINDOW_FOCUS_CYCLE := m\<rparr>) Direction w =
           Inr (Monocle_Swap E w T S Direction) \<and>
         ((Direction = ''east'' \<or> Direction = ''next'') \<and> Right (Nodes w S) = None \<longrightarrow>
            Monocle_ClosestNode E w T S Direction = GetFirstLeafNode E (Nodes w) T) \<and>
         ((Direction = ''west'' \<or> Direction = ''prev'') \<and> Left (Nodes w S) = None \<longrightarrow>
            Monocle_ClosestNode E w T S Direction = GetLastLeafNode E (Nodes w) T) \<and>
         (\<forall>ClosestNode. Monocle_ClosestNode E w T S Direction = Some ClosestNode \<longrightarrow>
            Monocle_Swap E w T S Direction =
              (if ClosestNode = S then w
               else w\<lparr>Nodes := SwapNodeIds S ClosestNode (Nodes w)\<rparr>))"
  using SwapWindow_monocle[OF assms] WarpWindow_monocle[OF assms]
  by (auto simp: Monocle_Swap_def Monocle_ClosestNode_def)

lemma monocle_example_reached: "Monocle_reached example_ext monocle_world 11 12"
  unfolding Monocle_reached_def
  apply (rule exI[of _ "\<lparr>window_Id = 2, window_Float = False\<rparr>"])
  apply (rule exI[of _ user_space])
  apply (simp add: example_ext_def monocle_world_def user_space_def)
  done

theorem C10_monocle_wrap_witness:
  "Monocle_reached example_ext monocle_world 11 12 \<and>
   Right (Nodes monocle_world 12) = None \<and>
   Monocle_ClosestNode example_ext monocle_world 11 12 ''next'' = Some 11 \<and>
   SwapWindow (example_ext\<lparr>CVAR_WINDOW_FOCUS_CYCLE := ''none''\<rparr>) ''next'' monocle_world =
     Inr (monocle_world\<lparr>Nodes := SwapNodeIds 12 11 (Nodes monocle_world)\<rparr>) \<and>
   WarpWindow (example_ext\<lparr>CVAR_WINDOW_FOCUS_CYCLE := ''none''\<rparr>) ''next'' monocle_world =
     Inr (monocle_world\<lparr>Nodes := SwapNodeIds 12 11 (Nodes monocle_world)\<rparr>)"
proof -
  have r: "Right (Nodes monocle_world 12) = None"
    by (simp add: monocle_world_def monocle_heap_def leaf_node_def)
  have f: "GetFirstLeafNode example_ext (Nodes monocle_world) 11 = Some 11"
    by (simp add: example_ext_def)
  from C10_monocle_wrap[OF monocle_example_reached, of "''none''" "''next''"] r f
  show ?thesis using monocle_example_reached by simp
qed

section \<open>Zoom: results\<close>

lemma Resize_frame [simp]:
  "Nodes (ResizeWindowToRegionSize n w) = Nodes w"
  "VirtualSpace (ResizeWindowToRegionSize n w) = VirtualSpace w"
  "Nodes (ResizeWindowToExternalRegionSize n R w) = Nodes w"
  "VirtualSpace (ResizeWindowToExternalRegionSize n R w) = VirtualSpace w"
  by (simp_all add: ResizeWindowToRegionSize_def ResizeWindowToExternalRegionSize_def add_call_def)

lemma set_Zoom_simps [simp]:
  "VirtualSpace (set_Zoom n z w) = VirtualSpace w"
  "Parent (Nodes (set_Zoom n z w) a) = Parent (Nodes w a)"
  "Zoom (Nodes (set_Zoom n z w) a) = (if a = n then z else Zoom (Nodes w a))"
  by (simp_all add: set_Zoom_def)

lemma FullscreenZoomNode_VirtualSpace [simp]:
  "VirtualSpace (FullscreenZoomNode T Node w) = VirtualSpace w"
  by (simp add: FullscreenZoomNode_def Let_def split: option.split)

lemma ParentZoomNode_VirtualSpace [simp]:
  "VirtualSpace (ParentZoomNode T Node P w) = VirtualSpace w"
  by (simp add: ParentZoomNode_def Let_def split: option.split)

lemma FullscreenZoomNode_exclusive:
  assumes "zoom_exclusive T (Nodes w)"
  shows "zoom_exclusive T (Nodes (FullscreenZoomNode T Node w))"
  using assms
  by (auto simp: zoom_exclusive_def FullscreenZoomNode_def Let_def split: option.splits if_splits)

lemma ParentZoomNode_exclusive:
  assumes "zoom_exclusive T (Nodes w)" "Parent (Nodes w Node) = Some P"
  shows "zoom_exclusive T (Nodes (ParentZoomNode T Node P w))"
  using assms
  by (auto simp: zoom_exclusive_def ParentZoomNode_def Let_def split: option.splits if_splits)

lemma run_zoom_command_inv:
  assumes "run_zoom_command c w = Inr w'" "Tree (VirtualSpace w) = Some T"
    "zoom_exclusive T (Nodes w)"
  shows "Tree (VirtualSpace w') = Some T \<and> zoom_exclusive T (Nodes w')"
proof (cases c)
  case (FullscreenZoom E)
  with assms show ?thesis
    by (auto simp: ToggleWindowFullscreenZoom_def FullscreenZoomNode_exclusive
        split: option.splits if_splits)
next
  case (ParentZoom E)
  with assms show ?thesis
    by (auto simp: ToggleWindowParentZoom_def ParentZoomNode_exclusive
        split: option.splits if_splits)
qed

lemma run_zoom_commands_inv:
  assumes "run_zoom_commands cs w = Inr w'" "Tree (VirtualSpace w) = Some T"
    "zoom_exclusive T (Nodes w)"
  shows "Tree (VirtualSpace w') = Some T \<and> zoom_exclusive T (Nodes w')"
  using assms
proof (induction cs arbitrary: w)
  case Nil
  then show ?case by simp
next
  case (Cons c cs)
  from Cons.prems(1) obtain w1 where 1: "run_zoom_command c w = Inr w1"
    and 2: "run_zoom_commands cs w1 = Inr w'"
    by (auto split: sum.splits)
  from run_zoom_command_inv[OF 1 Cons.prems(2,3)] Cons.IH[OF 2] show ?case by blast
qed

text \<open>
  C6, as stated, fails: with two windows, the fullscreen zoom of the left window makes it
  the zoom of the root, and the root is its parent, so it is the fullscreen zoom of the
  tree and the zoom of its parent at once.
\<close>

theorem C6_zoom_counterexample:
  "no_zoomed_node (Nodes example_world) \<and>
   run_zoom_commands [FullscreenZoom example_ext] example_world =
     Inr (FullscreenZoomNode 10 11 example_world) \<and>
   Zoom (Nodes (FullscreenZoomNode 10 11 example_world) 10) = Some 11 \<and>
   Parent (Nodes (FullscreenZoomNode 10 11 example_world) 11) = Some 10 \<and>
   \<not> zoom_exclusive_described 10 (Nodes (FullscreenZoomNode 10 11 example_world))"
proof -
  have z: "no_zoomed_node (Nodes example_world)"
    by (simp add: no_zoomed_node_def example_world_def example_heap_def leaf_node_def)
  have r: "run_zoom_commands [FullscreenZoom example_ext] example_world =
             Inr (FullscreenZoomNode 10 11 example_world)"
    by (simp add: ToggleWindowFullscreenZoom_def example_ext_def example_world_def user_space_def)
  have v: "Zoom (Nodes (FullscreenZoomNode 10 11 example_world) 10) = Some 11"
    "Parent (Nodes (FullscreenZoomNode 10 11 example_world) 11) = Some 10"
    by (simp_all add: FullscreenZoomNode_def example_world_def example_heap_def leaf_node_def
        Let_def)
  from v have "\<not> zoom_exclusive_described 10 (Nodes (FullscreenZoomNode 10 11 example_world))"
    unfolding zoom_exclusive_described_def by blast
  with z r v show ?thesis by blast
qed

text \<open>
  C6, amended: after any sequence of the two zoom commands that starts without a zoomed
  node, at most one node is the fullscreen zoom of the tree, and no node whose parent is
  not the root is both the fullscreen zoom of the tree and the zoom of its parent.
\<close>

theorem C6_zoom_exclusive_amended:
  assumes "Tree (VirtualSpace w) = Some T"
    and "no_zoomed_node (Nodes w)"
    and "run_zoom_commands cs w = Inr w'"
  shows "Tree (VirtualSpace w') = Some T \<and>
         (\<forall>n m. Zoom (Nodes w' T) = Some n \<and> Zoom (Nodes w' T) = Some m \<longrightarrow> n = m) \<and>
         (\<forall>n P. Parent (Nodes w' n) = Some P \<and> P \<noteq> T \<longrightarrow>
            \<not> (Zoom (Nodes w' T) = Some n \<and> Zoom (Nodes w' P) = Some n))"
proof -
  from assms(2) have "zoom_exclusive T (Nodes w)"
    by (simp add: zoom_exclusive_def no_zoomed_node_def)
  from run_zoom_commands_inv[OF assms(3) assms(1) this] show ?thesis
    by (auto simp: zoom_exclusive_def)
qed

theorem C6_zoom_exclusive_amended_witness:
  "Tree (VirtualSpace three_world) = Some 10 \<and>
   no_zoomed_node (Nodes three_world) \<and>
   (\<exists>w'. run_zoom_commands [FullscreenZoom three_ext, ParentZoom three_ext] three_world = Inr w' \<and>
      Zoom (Nodes w' 10) = None \<and> Zoom (Nodes w' 12) = Some 13 \<and>
      Parent (Nodes w' 13) = Some 12 \<and>
      zoom_exclusive 10 (Nodes w'))"
proof -
  have t: "Tree (VirtualSpace three_world) = Some 10"
    by (simp add: three_world_def)
  have z: "no_zoomed_node (Nodes three_world)"
    by (simp add: no_zoomed_node_def three_world_def three_heap_def leaf_node_def)
  have "\<exists>w'. run_zoom_commands [FullscreenZoom three_ext, ParentZoom three_ext] three_world = Inr w' \<and>
      Zoom (Nodes w' 10) = None \<and> Zoom (Nodes w' 12) = Some 13 \<and> Parent (Nodes w' 13) = Some 12"
    by (simp add: ToggleWindowFullscreenZoom_def FullscreenZoomNode_def
      ToggleWindowParentZoom_def ParentZoomNode_def
      three_ext_def example_ext_def three_world_def three_heap_def user_space_def leaf_node_def
      set_Zoom_def ResizeWindowToExternalRegionSize_def ResizeWindowToRegionSize_def
      add_call_def Let_def)
  then obtain w' where
    r: "run_zoom_commands [FullscreenZoom three_ext, ParentZoom three_ext] three_world = Inr w'"
    and v: "Zoom (Nodes w' 10) = None" "Zoom (Nodes w' 12) = Some 13" "Parent (Nodes w' 13) = Some 12"
    by blast
  from C6_zoom_exclusive_amended[OF t z r] have "zoom_exclusive 10 (Nodes w')"
    by (simp add: zoom_exclusive_def)
  with t z r v show ?thesis by blast
qed

section \<open>SendWindowToDesktop: results\<close>

text \<open>
  C7, as stated, fails: when the active space is a fullscreen space, the operand
  \<open>abc\<close> cannot be parsed, and yet the function returns true (the result of
  \<open>AXLibActiveSpace\<close>) and logs nothing, since it leaves at the test of the space type.
\<close>

theorem C7_counterexample:
  "DestinationDesktop fullscreen_ext ''abc'' 1 = None \<and>
   SendWindowToDesktop fullscreen_ext \<lparr>window_Id = 1, window_Float = False\<rparr> ''abc'' example_world =
     Inr (True, example_world)"
  by (simp add: DestinationDesktop_def SendWindowToDesktop_def SourceSpace_def
      fullscreen_ext_def example_ext_def)

text \<open>
  C7, amended: when the source space is resolved, is a user space and has a desktop id,
  \<open>SendWindowToDesktop\<close> returns false, logs one warning and changes nothing else (no
  untile, no move of the window) whenever the destination desktop cannot be parsed from
  the operand, is the source desktop, or does not exist; so does \<open>next\<close> on the only
  user desktop.
\<close>

theorem C7_amended:
  assumes "SourceSpace E Window Op = Inr (Space, Success)"
    and "space_Type Space = kCGSSpaceUser"
    and "AXLibCGSSpaceIDToDesktopID E (space_Id Space) = Some (SourceMonitor, SourceDesktopId)"
    and "bad_destination E Op SourceDesktopId"
  shows "\<exists>msg. SendWindowToDesktop E Window Op w = Inr (False, add_call (c_log_WARN msg) w)"
  using assms
  by (auto simp: SendWindowToDesktop_def bad_destination_def split: option.splits)

theorem C7_amended_witness:
  "SourceSpace example_ext \<lparr>window_Id = 1, window_Float = False\<rparr> ''next'' = Inr (user_space, False) \<and>
   space_Type user_space = kCGSSpaceUser \<and>
   AXLibCGSSpaceIDToDesktopID example_ext (space_Id user_space) = Some (0, 1) \<and>
   bad_destination example_ext ''next'' 1 \<and>
   (\<exists>msg. SendWindowToDesktop example_ext \<lparr>window_Id = 1, window_Float = False\<rparr> ''next'' example_world =
      Inr (False, add_call (c_log_WARN msg) example_world))"
proof -
  have a: "SourceSpace example_ext \<lparr>window_Id = 1, window_Float = False\<rparr> ''next'' = Inr (user_space, False)"
    by (simp add: SourceSpace_def example_ext_def)
  have b: "space_Type user_space = kCGSSpaceUser" by (simp add: user_space_def)
  have c: "AXLibCGSSpaceIDToDesktopID example_ext (space_Id user_space) = Some (0, 1)"
    by (simp add: example_ext_def user_space_def)
  have d: "bad_destination example_ext ''next'' 1"
    by (simp add: bad_destination_def DestinationDesktop_def example_ext_def)
  from C7_amended[OF a b c d, of example_world] a b c d show ?thesis by blast
qed


end
